theory Spec2Isabelle
  imports Main
begin

section \<open>The scene conversion utility (sceneconverter.cpp)\<close>

text \<open>
  The utility is one long \<open>main()\<close>: option checks, plugin managers, opening the input,
  an optional single-mesh or concatenation step, per-mesh preprocessing and a chain of
  scene converters. The model follows the source block by block. Plugins and mesh tools are
  collaborators whose code is elsewhere; they enter as the fields of an environment record.
  Every call with an effect outside the driver, and every diagnostic, is appended to a
  trace of events, so that orderings can be stated. Timing (\<open>Duration\<close>, \<open>--profile\<close>)
  and the purely informational \<open>--verbose\<close> output of the driver are not modelled.
\<close>

subsection \<open>Mesh data\<close>

text \<open>
  Modelled from the spec: \<open>MeshPrimitive\<close>, \<open>MeshAttribute\<close> and \<open>Trade::MeshData\<close>
  are declared in headers that are not among the sources. A mesh has a primitive topology
  tag, an optional index buffer, a vertex buffer, an ordered list of named attributes and a
  vertex count. A custom attribute carries a small integer id: \<open>Custom i\<close> is the attribute
  for which \<open>isMeshAttributeCustom\<close> holds and \<open>meshAttributeCustom\<close> gives \<open>i\<close>. Attributes
  are represented by their names; the buffers are opaque to the driver.
\<close>

datatype MeshPrimitive =
  Points | Lines | LineLoop | LineStrip | Triangles | TriangleStrip | TriangleFan

datatype MeshAttribute = Position | Normal | TextureCoordinates | Custom nat

record MeshData =
  primitive :: MeshPrimitive
  indices :: "nat list option"
  vertexData :: "nat list"
  attributes :: "MeshAttribute list"
  vertexCount :: nat

definition attributeCount :: "MeshData \<Rightarrow> nat" where
  "attributeCount m = length (attributes m)"

text \<open>
  Modelled from the spec: \<open>SceneData\<close> is a node hierarchy where each node carries a local
  transform and references zero or more mesh indices. A matrix is its list of entries.
\<close>

type_synonym Matrix4 = "int list"

datatype SceneNode = SceneNode Matrix4 "nat list" "SceneNode list"

type_synonym SceneData = "SceneNode list"

text \<open>
  Modelled from the spec: the content categories of \<open>Trade::SceneContents\<close> and the
  capability flags of \<open>Trade::SceneConverterFeatures\<close>. Both are flag sets.
\<close>

datatype SceneContent =
  Scenes | Animations | Cameras | Images | Lights | Materials | Meshes | Skins
  | Textures | Names

datatype SceneConverterFeature =
  ConvertMesh | ConvertMultiple | ConvertMeshToFile | ConvertMultipleToFile

subsection \<open>Command-line arguments\<close>

text \<open>
  The options of \<open>Utility::Arguments\<close> after parsing. A value option holds its text (empty
  when it was not given), a boolean option whether it was set, an array option its values.
\<close>

record Arguments =
  arg_input :: string
  arg_output :: string
  arg_importer :: string
  arg_converter :: "string list"
  arg_mesh_converter :: "string list"
  arg_map :: bool
  arg_only_mesh_attributes :: string
  arg_remove_duplicate_vertices :: bool
  arg_remove_duplicate_vertices_fuzzy :: string
  arg_importer_options :: string
  arg_converter_options :: "string list"
  arg_mesh_converter_options :: "string list"
  arg_mesh :: string
  arg_mesh_level :: string
  arg_concatenate_meshes :: bool
  arg_info_animations :: bool
  arg_info_images :: bool
  arg_info_lights :: bool
  arg_info_cameras :: bool
  arg_info_materials :: bool
  arg_info_meshes :: bool
  arg_info_objects :: bool
  arg_info_scenes :: bool
  arg_info_skins :: bool
  arg_info_textures :: bool
  arg_info :: bool
  arg_verbose :: bool

definition isInfoRequested :: "Arguments \<Rightarrow> bool" where
  "isInfoRequested args =
     (arg_info_animations args \<or> arg_info_images args \<or> arg_info_lights args \<or>
      arg_info_cameras args \<or> arg_info_materials args \<or> arg_info_meshes args \<or>
      arg_info_objects args \<or> arg_info_scenes args \<or> arg_info_skins args \<or>
      arg_info_textures args \<or> arg_info args)"

subsection \<open>Importers\<close>

text \<open>
  An importer that a plugin provides: the virtual \<open>do...\<close> functions the driver reaches
  through the \<open>AbstractImporter\<close> interface.
\<close>

record PluginImporter =
  doMeshCount :: nat
  doMesh :: "nat \<Rightarrow> nat \<Rightarrow> MeshData option"
  doDefaultScene :: int
  doScene :: "nat \<Rightarrow> SceneData option"
  doMeshAttributeName :: "nat \<Rightarrow> string"
  doMeshName :: "nat \<Rightarrow> string"

text \<open>
  An importer plugin before a file is opened. The verbose flag and the option string set on
  the instance are handed to the opening function.
\<close>

record ImporterPlugin =
  openFile :: "bool \<Rightarrow> string \<Rightarrow> string \<Rightarrow> PluginImporter option"
  openMemory :: "bool \<Rightarrow> string \<Rightarrow> nat list \<Rightarrow> PluginImporter option"

text \<open>
  \<open>struct SingleMeshImporter\<close>: one mesh, its name, and the names of its custom attributes
  as an array of (id, name) pairs.
\<close>

record SingleMeshImporter =
  smi_mesh :: MeshData
  smi_name :: string
  smi_attributeNames :: "(nat \<times> string) list"

text \<open>
  The constructor's loop over the attributes of the mesh: a custom attribute appends its id
  and the name the original importer has for it, empty or not; any other attribute is
  skipped.
\<close>

fun collectAttributeNames ::
  "PluginImporter \<Rightarrow> MeshAttribute list \<Rightarrow> (nat \<times> string) list \<Rightarrow> (nat \<times> string) list" where
  "collectAttributeNames original [] names = names"
| "collectAttributeNames original (a # rest) names =
     (case a of
        Custom i \<Rightarrow>
          collectAttributeNames original rest (names @ [(i, doMeshAttributeName original i)])
      | _ \<Rightarrow> collectAttributeNames original rest names)"

definition SingleMeshImporter_new ::
  "MeshData \<Rightarrow> string \<Rightarrow> PluginImporter \<Rightarrow> SingleMeshImporter" where
  "SingleMeshImporter_new mesh' name' original =
     \<lparr>smi_mesh = mesh', smi_name = name',
      smi_attributeNames = collectAttributeNames original (attributes mesh') []\<rparr>"

text \<open>
  \<open>doMeshAttributeName\<close>: the first pair with the id gives the name; running off the array
  is \<open>CORRADE_INTERNAL_ASSERT_UNREACHABLE\<close>, here \<open>None\<close>.
\<close>

fun findAttributeName :: "(nat \<times> string) list \<Rightarrow> nat \<Rightarrow> string option" where
  "findAttributeName [] i = None"
| "findAttributeName (p # rest) i =
     (if fst p = i then Some (snd p) else findAttributeName rest i)"

definition SingleMeshImporter_doMeshAttributeName ::
  "SingleMeshImporter \<Rightarrow> nat \<Rightarrow> string option" where
  "SingleMeshImporter_doMeshAttributeName s i = findAttributeName (smi_attributeNames s) i"

definition SingleMeshImporter_doMeshCount :: "SingleMeshImporter \<Rightarrow> nat" where
  "SingleMeshImporter_doMeshCount s = 1"

definition SingleMeshImporter_doMeshName :: "SingleMeshImporter \<Rightarrow> nat \<Rightarrow> string" where
  "SingleMeshImporter_doMeshName s i = smi_name s"

definition SingleMeshImporter_doMesh ::
  "SingleMeshImporter \<Rightarrow> nat \<Rightarrow> nat \<Rightarrow> MeshData option" where
  "SingleMeshImporter_doMesh s i level = Some (smi_mesh s)"

text \<open>
  The importer the driver holds is either of the two; a call through the interface
  dispatches on which. \<open>meshAttributeName\<close> takes the id of a custom attribute and is
  \<open>None\<close> when the implementation hits its unreachable assertion.
\<close>

datatype Importer = FromPlugin PluginImporter | SingleMesh SingleMeshImporter

fun meshCount :: "Importer \<Rightarrow> nat" where
  "meshCount (FromPlugin p) = doMeshCount p"
| "meshCount (SingleMesh s) = SingleMeshImporter_doMeshCount s"

fun mesh :: "Importer \<Rightarrow> nat \<Rightarrow> nat \<Rightarrow> MeshData option" where
  "mesh (FromPlugin p) i level = doMesh p i level"
| "mesh (SingleMesh s) i level = SingleMeshImporter_doMesh s i level"

fun meshName :: "Importer \<Rightarrow> nat \<Rightarrow> string" where
  "meshName (FromPlugin p) i = doMeshName p i"
| "meshName (SingleMesh s) i = SingleMeshImporter_doMeshName s i"

fun meshAttributeName :: "Importer \<Rightarrow> nat \<Rightarrow> string option" where
  "meshAttributeName (FromPlugin p) i = Some (doMeshAttributeName p i)"
| "meshAttributeName (SingleMesh s) i = SingleMeshImporter_doMeshAttributeName s i"

subsection \<open>Collaborators\<close>

text \<open>
  Everything the driver calls that is implemented elsewhere. A scene converter instance is
  a value of the type \<open>'c\<close>; a call that changes the instance returns the changed one, and a
  call that reports failure returns \<open>None\<close>. Floating-point values are not interpreted: the
  fuzzy epsilon is handed on as the option text.
\<close>

record 'c Environment =
  value_UnsignedInt :: "string \<Rightarrow> nat"
  parseNumberSequence :: "string \<Rightarrow> nat \<Rightarrow> nat \<Rightarrow> nat list option"
  importerManager_loadAndInstantiate :: "string \<Rightarrow> ImporterPlugin option"
  mapRead :: "string \<Rightarrow> nat list option"
  printInfo :: "Arguments \<Rightarrow> PluginImporter \<Rightarrow> bool"
  flattenMeshHierarchy3D :: "SceneData \<Rightarrow> (nat \<times> int \<times> Matrix4) list"
  transform3D :: "MeshData \<Rightarrow> Matrix4 \<Rightarrow> MeshData"
  concatenateBuffers :: "MeshData list \<Rightarrow> nat list option \<times> nat list"
  removeDuplicates :: "MeshData \<Rightarrow> MeshData"
  removeDuplicatesFuzzy :: "MeshData \<Rightarrow> string \<Rightarrow> MeshData"
  converterManager_loadAndInstantiate :: "string \<Rightarrow> 'c option"
  addFlags :: "'c \<Rightarrow> 'c"
  setOptions :: "'c \<Rightarrow> string \<Rightarrow> 'c"
  doFeatures :: "'c \<Rightarrow> SceneConverterFeature set"
  sceneContentsFor :: "'c \<Rightarrow> SceneContent set"
  doConvert :: "'c \<Rightarrow> MeshData \<Rightarrow> MeshData option"
  doBeginFile :: "'c \<Rightarrow> string \<Rightarrow> 'c option"
  doBegin :: "'c \<Rightarrow> 'c option"
  doSetMeshAttributeName :: "'c \<Rightarrow> nat \<Rightarrow> string \<Rightarrow> 'c"
  doAdd :: "'c \<Rightarrow> MeshData \<Rightarrow> string \<Rightarrow> 'c option"
  addSupportedImporterContents :: "'c \<Rightarrow> Importer \<Rightarrow> SceneContent set \<Rightarrow> 'c option"
  doEndFile :: "'c \<Rightarrow> bool"
  doEnd :: "'c \<Rightarrow> PluginImporter option"

text \<open>
  Modelled from the spec: \<open>MeshTools::concatenate\<close> (Concatenate.h is not among the
  sources). All meshes being concatenated must share a directly-summable primitive
  topology, with no mixing of lines and triangles and no strip, loop or fan forms; a
  violation is a fatal error, here \<open>None\<close>. The output attribute set is taken only from
  the first mesh, and the vertices of all meshes follow each other in the order given.
  How the buffers are merged is left to the collaborator \<open>merge\<close>. With no first mesh
  there is no output.
\<close>

fun directlySummable :: "MeshPrimitive \<Rightarrow> bool" where
  "directlySummable Points = True"
| "directlySummable Lines = True"
| "directlySummable Triangles = True"
| "directlySummable p = False"

definition concatenable :: "MeshData list \<Rightarrow> bool" where
  "concatenable meshes =
     (case meshes of
        [] \<Rightarrow> False
      | m # rest \<Rightarrow>
          directlySummable (primitive m) \<and> list_all (\<lambda>x. primitive x = primitive m) rest)"

definition concatenate ::
  "(MeshData list \<Rightarrow> nat list option \<times> nat list) \<Rightarrow> MeshData list \<Rightarrow> MeshData option" where
  "concatenate merge meshes =
     (if concatenable meshes then
        Some \<lparr>primitive = primitive (hd meshes),
              indices = fst (merge meshes),
              vertexData = snd (merge meshes),
              attributes = attributes (hd meshes),
              vertexCount = sum_list (map vertexCount meshes)\<rparr>
      else None)"

subsection \<open>Events, outcomes and sequencing\<close>

datatype message =
  MeshAndConcatenateMeshesMutuallyExclusive
  | MeshLevelOnlyWithMesh
  | OnlyMeshAttributesOnlyWithMeshOrConcatenate
  | CannotMemoryMapFile
  | CannotOpenFile
  | NoMeshesFound
  | CannotImportMesh nat
  | CannotImportScene
  | CannotImportTheMesh
  | DoesntSupportMeshConversion string
  | CannotProcessMesh nat string
  | CannotBeginConversionOfFile
  | DoesntSupportImporterConversion string
  | CannotBeginImporterConversion
  | CannotAddMesh nat
  | CannotAddImporterContents
  | CannotEndConversionOfFile
  | CannotEndImporterConversion

datatype warning = IgnoringOutputFileForInfo | IgnoringMeshesNotSupported nat

datatype listing =
  AvailableImporterPlugins | AvailableMeshConverterPlugins | AvailableConverterPlugins

datatype manager = ImporterManager | ImageConverterManager | SceneConverterManager

datatype event =
  Error message
  | Warning warning
  | Debug listing
  | ManagerConstructed manager
  | LoadAndInstantiate manager string
  | FilterAttributes "nat list"
  | RemoveDuplicates nat
  | RemoveDuplicatesFuzzy nat string
  | Convert nat nat string
  | BeginFile nat string
  | Begin nat
  | SetMeshAttributeName nat nat string
  | Add nat nat string
  | AddSupportedImporterContents nat "SceneContent set"
  | EndFile nat
  | End nat

text \<open>
  \<open>Error\<close> and \<open>Warning\<close> are the messages the driver prints itself; \<open>Debug\<close> is the
  list of available plugins it prints when a plugin could not be loaded.
\<close>

text \<open>
  A run ends with an exit code, or is aborted by an assertion of the driver or of a tool.
\<close>

datatype assertion =
  AssertUnreachable | AssertIndexInRange | AssertStageIndex | AssertConcatenate

datatype outcome = Exit int | Abort assertion

text \<open>
  A piece of the driver yields the events it produced and either the outcome that ended
  the run or its result.
\<close>

type_synonym 'a run = "event list \<times> (outcome + 'a)"

definition ret :: "'a \<Rightarrow> 'a run" where
  "ret x = ([], Inr x)"

definition emit :: "event \<Rightarrow> unit run" where
  "emit e = ([e], Inr ())"

definition exit_with :: "int \<Rightarrow> 'a run" where
  "exit_with code = ([], Inl (Exit code))"

definition fail :: "message \<Rightarrow> int \<Rightarrow> 'a run" where
  "fail msg code = ([Error msg], Inl (Exit code))"

definition abort :: "assertion \<Rightarrow> 'a run" where
  "abort a = ([], Inl (Abort a))"

fun then_do :: "'a run \<Rightarrow> ('a \<Rightarrow> 'b run) \<Rightarrow> 'b run" where
  "then_do (tr, Inl out) f = (tr, Inl out)"
| "then_do (tr, Inr x) f = (tr @ fst (f x), snd (f x))"

subsection \<open>Generic checks and opening the input\<close>

text \<open>The checks on option combinations, made before anything else.\<close>

definition genericChecks :: "Arguments \<Rightarrow> unit run" where
  "genericChecks args =
     then_do
       (if arg_output args \<noteq> [] \<and> isInfoRequested args
        then emit (Warning IgnoringOutputFileForInfo) else ret ())
       (\<lambda>_.
          if arg_concatenate_meshes args \<and> arg_mesh args \<noteq> []
          then fail MeshAndConcatenateMeshesMutuallyExclusive 1
          else if arg_mesh_level args \<noteq> [] \<and> arg_mesh args = []
          then fail MeshLevelOnlyWithMesh 1
          else if arg_only_mesh_attributes args \<noteq> [] \<and> arg_mesh args = []
                  \<and> \<not> arg_concatenate_meshes args
          then fail OnlyMeshAttributesOnlyWithMeshOrConcatenate 1
          else ret ())"

text \<open>
  The three plugin managers, the importer plugin, and opening or memory-mapping the input.
\<close>

definition openInput :: "'c Environment \<Rightarrow> Arguments \<Rightarrow> PluginImporter run" where
  "openInput env args =
     then_do (emit (ManagerConstructed ImporterManager)) (\<lambda>_.
     then_do (emit (ManagerConstructed ImageConverterManager)) (\<lambda>_.
     then_do (emit (ManagerConstructed SceneConverterManager)) (\<lambda>_.
     then_do (emit (LoadAndInstantiate ImporterManager (arg_importer args))) (\<lambda>_.
       case importerManager_loadAndInstantiate env (arg_importer args) of
         None \<Rightarrow> ([Debug AvailableImporterPlugins], Inl (Exit 1))
       | Some plugin \<Rightarrow>
           if arg_map args then
             (case mapRead env (arg_input args) of
                None \<Rightarrow> fail CannotMemoryMapFile 3
              | Some mapped \<Rightarrow>
                  (case openMemory plugin (arg_verbose args) (arg_importer_options args) mapped of
                     None \<Rightarrow> fail CannotMemoryMapFile 3
                   | Some importer \<Rightarrow> ret importer))
           else
             (case openFile plugin (arg_verbose args) (arg_importer_options args)
                     (arg_input args) of
                None \<Rightarrow> fail CannotOpenFile 3
              | Some importer \<Rightarrow> ret importer)))))"

subsection \<open>A single mesh, or all meshes concatenated\<close>

text \<open>The loop importing every mesh for concatenation, \<open>i\<close> running over the mesh ids.\<close>

fun importMeshes :: "PluginImporter \<Rightarrow> nat list \<Rightarrow> MeshData list \<Rightarrow> MeshData list run" where
  "importMeshes importer [] meshes = ret meshes"
| "importMeshes importer (i # rest) meshes =
     (case doMesh importer i 0 of
        None \<Rightarrow> fail (CannotImportMesh i) 1
      | Some meshToConcatenate \<Rightarrow> importMeshes importer rest (meshes @ [meshToConcatenate]))"

text \<open>
  The loop over the flattened hierarchy: each (mesh id, object, transformation) triple
  appends the transformed mesh. Indexing the mesh array out of range is an assertion.
\<close>

fun transformMeshes ::
  "'c Environment \<Rightarrow> MeshData list \<Rightarrow> (nat \<times> int \<times> Matrix4) list \<Rightarrow> MeshData list
     \<Rightarrow> MeshData list run" where
  "transformMeshes env meshes [] flattenedMeshes = ret flattenedMeshes"
| "transformMeshes env meshes (meshTransformation # rest) flattenedMeshes =
     (if fst meshTransformation < length meshes then
        transformMeshes env meshes rest
          (flattenedMeshes @
             [transform3D env (meshes ! fst meshTransformation) (snd (snd meshTransformation))])
      else abort AssertIndexInRange)"

text \<open>
  The meshes that go into the concatenation: all meshes of the importer, in the order of
  their ids, and if there is a default scene, instead one transformed mesh per entry of
  the flattened hierarchy.
\<close>

definition meshesToConcatenate :: "'c Environment \<Rightarrow> PluginImporter \<Rightarrow> MeshData list run" where
  "meshesToConcatenate env importer =
     (if doMeshCount importer = 0 then fail NoMeshesFound 1
      else
        then_do (importMeshes importer [0..<doMeshCount importer] []) (\<lambda>meshes.
          if doDefaultScene importer \<noteq> -1 then
            (case doScene importer (nat (doDefaultScene importer mod 2 ^ 32)) of
               None \<Rightarrow> fail CannotImportScene 1
             | Some scene \<Rightarrow>
                 transformMeshes env meshes (flattenMeshHierarchy3D env scene) [])
          else ret meshes))"

definition concatenateMeshes :: "'c Environment \<Rightarrow> PluginImporter \<Rightarrow> MeshData run" where
  "concatenateMeshes env importer =
     then_do (meshesToConcatenate env importer) (\<lambda>meshes.
       case concatenate (concatenateBuffers env) meshes of
         None \<Rightarrow> abort AssertConcatenate
       | Some m \<Rightarrow> ret m)"

text \<open>
  Attribute filtering: the ids are parsed against the attribute count of the mesh, the
  attribute array is rebuilt from them, and everything else of the mesh is kept.
\<close>

definition filterAttributes :: "'c Environment \<Rightarrow> Arguments \<Rightarrow> MeshData \<Rightarrow> MeshData run" where
  "filterAttributes env args m =
     (if arg_only_mesh_attributes args \<noteq> [] then
        (case parseNumberSequence env (arg_only_mesh_attributes args) 0 (attributeCount m) of
           None \<Rightarrow> exit_with 2
         | Some only \<Rightarrow>
             if list_all (\<lambda>i. i < attributeCount m) only then
               then_do (emit (FilterAttributes only)) (\<lambda>_.
                 ret (m\<lparr>attributes := map (\<lambda>i. attributes m ! i) only\<rparr>))
             else abort AssertIndexInRange)
      else ret m)"

definition singleMesh :: "'c Environment \<Rightarrow> Arguments \<Rightarrow> PluginImporter \<Rightarrow> Importer run" where
  "singleMesh env args importer =
     (if arg_concatenate_meshes args \<or> arg_mesh args \<noteq> [] then
        then_do
          (if arg_concatenate_meshes args then concatenateMeshes env importer
           else
             (case doMesh importer (value_UnsignedInt env (arg_mesh args))
                     (value_UnsignedInt env (arg_mesh_level args)) of
                None \<Rightarrow> fail CannotImportTheMesh 4
              | Some m \<Rightarrow> ret m))
          (\<lambda>m.
        then_do (filterAttributes env args m) (\<lambda>m.
          ret (SingleMesh (SingleMeshImporter_new m
                 (if arg_mesh args \<noteq> []
                  then doMeshName importer (value_UnsignedInt env (arg_mesh args)) else [])
                 importer))))
      else ret (FromPlugin importer))"

subsection \<open>Operations on all meshes\<close>

definition removeDuplicateVertices ::
  "'c Environment \<Rightarrow> Arguments \<Rightarrow> nat \<Rightarrow> MeshData \<Rightarrow> MeshData run" where
  "removeDuplicateVertices env args i m =
     (if arg_remove_duplicate_vertices args \<or> arg_remove_duplicate_vertices_fuzzy args \<noteq> []
      then
        (if arg_remove_duplicate_vertices_fuzzy args \<noteq> [] then
           then_do (emit (RemoveDuplicatesFuzzy i (arg_remove_duplicate_vertices_fuzzy args)))
             (\<lambda>_. ret (removeDuplicatesFuzzy env m (arg_remove_duplicate_vertices_fuzzy args)))
         else
           then_do (emit (RemoveDuplicates i)) (\<lambda>_. ret (removeDuplicates env m)))
      else ret m)"

text \<open>
  Setting up a loaded converter, as done for mesh converters and scene converters alike:
  the verbose flag if requested, then the options with the converter's index if there are
  that many.
\<close>

definition configured :: "'c Environment \<Rightarrow> bool \<Rightarrow> string list \<Rightarrow> nat \<Rightarrow> 'c \<Rightarrow> 'c" where
  "configured env verbose' options i loaded =
     (let flagged = (if verbose' then addFlags env loaded else loaded)
      in if i < length options then setOptions env flagged (options ! i) else flagged)"

text \<open>The loop over the mesh converters, \<open>j\<close> with the plugin name, for mesh \<open>i\<close>.\<close>

fun meshConverters ::
  "'c Environment \<Rightarrow> Arguments \<Rightarrow> nat \<Rightarrow> (nat \<times> string) list \<Rightarrow> MeshData \<Rightarrow> MeshData run" where
  "meshConverters env args i [] m = ret m"
| "meshConverters env args i (jn # rest) m =
     then_do (emit (LoadAndInstantiate SceneConverterManager (snd jn))) (\<lambda>_.
       case converterManager_loadAndInstantiate env (snd jn) of
         None \<Rightarrow> ([Debug AvailableMeshConverterPlugins], Inl (Exit 2))
       | Some loaded \<Rightarrow>
           let meshConverter =
                 configured env (arg_verbose args) (arg_mesh_converter_options args) (fst jn)
                   loaded
           in
             if ConvertMesh \<notin> doFeatures env meshConverter
             then fail (DoesntSupportMeshConversion (snd jn)) 1
             else
               then_do (emit (Convert i (fst jn) (snd jn))) (\<lambda>_.
                 case doConvert env meshConverter m of
                   None \<Rightarrow> fail (CannotProcessMesh i (snd jn)) 1
                 | Some m' \<Rightarrow> meshConverters env args i rest m'))"

text \<open>The loop over the meshes of the importer.\<close>

fun processMeshLoop ::
  "'c Environment \<Rightarrow> Arguments \<Rightarrow> Importer \<Rightarrow> nat list \<Rightarrow> MeshData list \<Rightarrow> MeshData list run"
  where
  "processMeshLoop env args importer [] meshes = ret meshes"
| "processMeshLoop env args importer (i # rest) meshes =
     (case mesh importer i 0 of
        None \<Rightarrow> fail (CannotImportMesh i) 1
      | Some m \<Rightarrow>
          then_do (removeDuplicateVertices env args i m) (\<lambda>m.
          then_do (meshConverters env args i (enumerate 0 (arg_mesh_converter args)) m) (\<lambda>m.
            processMeshLoop env args importer rest (meshes @ [m]))))"

definition processMeshes ::
  "'c Environment \<Rightarrow> Arguments \<Rightarrow> Importer \<Rightarrow> MeshData list run" where
  "processMeshes env args importer =
     (if arg_remove_duplicate_vertices args \<or> arg_remove_duplicate_vertices_fuzzy args \<noteq> []
         \<or> arg_mesh_converter args \<noteq> []
      then processMeshLoop env args importer [0..<meshCount importer] []
      else ret [])"

subsection \<open>The converter chain\<close>

text \<open>
  Propagating custom attribute names of one loose mesh to the converter: the loop over the
  attributes \<open>j\<close> of the mesh. Only non-empty names are set.
\<close>

fun propagateAttributeNames ::
  "'c Environment \<Rightarrow> nat \<Rightarrow> Importer \<Rightarrow> MeshAttribute list \<Rightarrow> 'c \<Rightarrow> 'c run" where
  "propagateAttributeNames env stage importer [] converter = ret converter"
| "propagateAttributeNames env stage importer (a # rest) converter =
     (case a of
        Custom n \<Rightarrow>
          (case meshAttributeName importer n of
             None \<Rightarrow> abort AssertUnreachable
           | Some nameString \<Rightarrow>
               if nameString \<noteq> [] then
                 then_do (emit (SetMeshAttributeName stage n nameString)) (\<lambda>_.
                   propagateAttributeNames env stage importer rest
                     (doSetMeshAttributeName env converter n nameString))
               else propagateAttributeNames env stage importer rest converter)
      | _ \<Rightarrow> propagateAttributeNames env stage importer rest converter)"

text \<open>The loop adding the loose meshes, \<open>i\<close> with the mesh, one by one.\<close>

fun addMeshes ::
  "'c Environment \<Rightarrow> nat \<Rightarrow> Importer \<Rightarrow> SceneContent set \<Rightarrow> (nat \<times> MeshData) list \<Rightarrow> 'c
     \<Rightarrow> 'c run" where
  "addMeshes env stage importer contents [] converter = ret converter"
| "addMeshes env stage importer contents (im # rest) converter =
     then_do (propagateAttributeNames env stage importer (attributes (snd im)) converter)
       (\<lambda>converter.
          let name' = (if Names \<in> contents then meshName importer (fst im) else []) in
          then_do (emit (Add stage (fst im) name')) (\<lambda>_.
            case doAdd env converter (snd im) name' of
              None \<Rightarrow> fail (CannotAddMesh (fst im)) 1
            | Some converter \<Rightarrow> addMeshes env stage importer contents rest converter))"

text \<open>
  The block for loose meshes left by the previous steps. It yields the converter, the
  mesh array and the contents mask as they are after the block.
\<close>

definition addLooseMeshes ::
  "'c Environment \<Rightarrow> nat \<Rightarrow> Importer \<Rightarrow> 'c \<Rightarrow> MeshData list \<Rightarrow> SceneContent set
     \<Rightarrow> ('c \<times> MeshData list \<times> SceneContent set) run" where
  "addLooseMeshes env stage importer converter meshes contents =
     (if meshes \<noteq> [] then
        then_do
          (if Meshes \<notin> sceneContentsFor env converter then
             then_do (emit (Warning (IgnoringMeshesNotSupported (length meshes))))
               (\<lambda>_. ret converter)
           else addMeshes env stage importer contents (enumerate 0 meshes) converter)
          (\<lambda>converter. ret (converter, [], contents \<inter> - {Meshes}))
      else ret (converter, meshes, contents))"

text \<open>
  What one iteration of the chain leaves behind: whether it was the last converter (the
  loop is left), the importer for the next iteration, the loose mesh array and the contents
  mask of this iteration.
\<close>

record StageEnd =
  st_last :: bool
  st_importer :: Importer
  st_meshes :: "MeshData list"
  st_contents :: "SceneContent set"

definition isLastConverter :: "'c Environment \<Rightarrow> Arguments \<Rightarrow> nat \<Rightarrow> 'c \<Rightarrow> bool" where
  "isLastConverter env args i converter =
     (i + 1 \<ge> length (arg_converter args)
      \<and> doFeatures env converter \<inter> {ConvertMeshToFile, ConvertMultipleToFile} \<noteq> {})"

definition beginConversion ::
  "'c Environment \<Rightarrow> Arguments \<Rightarrow> nat \<Rightarrow> string \<Rightarrow> 'c \<Rightarrow> 'c run" where
  "beginConversion env args i converterName converter =
     (if isLastConverter env args i converter then
        then_do (emit (BeginFile i (arg_output args))) (\<lambda>_.
          case doBeginFile env converter (arg_output args) of
            None \<Rightarrow> fail CannotBeginConversionOfFile 1
          | Some converter \<Rightarrow> ret converter)
      else if doFeatures env converter \<inter> {ConvertMesh, ConvertMultiple} = {}
      then fail (DoesntSupportImporterConversion converterName) 6
      else
        then_do (emit (Begin i)) (\<lambda>_.
          case doBegin env converter of
            None \<Rightarrow> fail CannotBeginImporterConversion 1
          | Some converter \<Rightarrow> ret converter))"

definition endConversion ::
  "'c Environment \<Rightarrow> nat \<Rightarrow> bool \<Rightarrow> Importer \<Rightarrow> MeshData list \<Rightarrow> SceneContent set \<Rightarrow> 'c
     \<Rightarrow> StageEnd run" where
  "endConversion env i isLast importer meshes contents converter =
     (if isLast then
        then_do (emit (EndFile i)) (\<lambda>_.
          if \<not> doEndFile env converter then fail CannotEndConversionOfFile 5
          else ret \<lparr>st_last = True, st_importer = importer, st_meshes = meshes,
                    st_contents = contents\<rparr>)
      else
        then_do (emit (End i)) (\<lambda>_.
          case doEnd env converter of
            None \<Rightarrow> fail CannotEndImporterConversion 1
          | Some produced \<Rightarrow>
              ret \<lparr>st_last = False, st_importer = FromPlugin produced, st_meshes = meshes,
                   st_contents = contents\<rparr>))"

text \<open>
  One iteration of the loop over the converters: \<open>i\<close> is the index and \<open>converterName\<close> the
  plugin, \<open>AnySceneConverter\<close> for the index after the last \<open>--converter\<close>.
\<close>

definition converterStage ::
  "'c Environment \<Rightarrow> Arguments \<Rightarrow> nat \<Rightarrow> string \<Rightarrow> Importer \<Rightarrow> MeshData list \<Rightarrow> StageEnd run"
  where
  "converterStage env args i converterName importer meshes =
     then_do (emit (LoadAndInstantiate SceneConverterManager converterName)) (\<lambda>_.
       case converterManager_loadAndInstantiate env converterName of
         None \<Rightarrow> ([Debug AvailableConverterPlugins], Inl (Exit 2))
       | Some loaded \<Rightarrow>
           let converter =
                 configured env (arg_verbose args) (arg_converter_options args) i loaded;
               isLast = isLastConverter env args i converter
           in
             if length (arg_converter args) > 1 \<and> arg_verbose args \<and> \<not> isLast
                \<and> \<not> i < length (arg_converter args)
             then abort AssertStageIndex
             else
               then_do (beginConversion env args i converterName converter) (\<lambda>converter.
               then_do (addLooseMeshes env i importer converter meshes (- {}))
                 (\<lambda>(converter, meshes, contents).
               then_do (emit (AddSupportedImporterContents i contents)) (\<lambda>_.
                 case addSupportedImporterContents env converter importer contents of
                   None \<Rightarrow> fail CannotAddImporterContents 5
                 | Some converter \<Rightarrow>
                     endConversion env i isLast importer meshes contents converter))))"

text \<open>
  The loop itself, over the indices \<open>0\<close> to the number of \<open>--converter\<close> options inclusive.
  After the last converter the loop is left; falling out of it also ends the run.
\<close>

fun converterChain ::
  "'c Environment \<Rightarrow> Arguments \<Rightarrow> (nat \<times> string) list \<Rightarrow> Importer \<Rightarrow> MeshData list \<Rightarrow> unit run"
  where
  "converterChain env args [] importer meshes = ret ()"
| "converterChain env args (stage # rest) importer meshes =
     then_do (converterStage env args (fst stage) (snd stage) importer meshes) (\<lambda>st.
       if st_last st then ret ()
       else converterChain env args rest (st_importer st) (st_meshes st))"

definition stages :: "Arguments \<Rightarrow> (nat \<times> string) list" where
  "stages args = enumerate 0 (arg_converter args @ [''AnySceneConverter''])"

subsection \<open>The whole run\<close>

text \<open>Everything up to the loop over the converters.\<close>

definition prepare :: "'c Environment \<Rightarrow> Arguments \<Rightarrow> (Importer \<times> MeshData list) run" where
  "prepare env args =
     then_do (genericChecks args) (\<lambda>_.
     then_do (openInput env args) (\<lambda>importer.
       if isInfoRequested args
       then exit_with (if printInfo env args importer then 1 else 0)
       else
         then_do (singleMesh env args importer) (\<lambda>importer.
         then_do (processMeshes env args importer) (\<lambda>meshes.
           ret (importer, meshes)))))"

definition pipeline :: "'c Environment \<Rightarrow> Arguments \<Rightarrow> unit run" where
  "pipeline env args =
     then_do (prepare env args) (\<lambda>(importer, meshes).
       converterChain env args (stages args) importer meshes)"

text \<open>The trace of the run and how it ended; reaching the end of \<open>main\<close> is exit code 0.\<close>

definition main :: "'c Environment \<Rightarrow> Arguments \<Rightarrow> event list \<times> outcome" where
  "main env args =
     (case pipeline env args of
        (tr, Inl out) \<Rightarrow> (tr, out)
      | (tr, Inr _) \<Rightarrow> (tr, Exit 0))"

subsection \<open>A concrete input\<close>

text \<open>
  A small source with two triangle meshes, of four and of three vertices, and no scene;
  the first mesh has a custom attribute with id 5 named \<open>weight\<close>. A converter instance
  is represented by its plugin name: \<open>AnySceneConverter\<close> writes files, \<open>MeshOnly\<close>
  declares just \<open>ConvertMesh\<close>, \<open>MaterialsOnly\<close> declares \<open>ConvertMultiple\<close> but takes no
  meshes, \<open>Bare\<close> declares nothing.
\<close>

definition M1 :: MeshData where
  "M1 = \<lparr>primitive = Triangles, indices = None, vertexData = [1, 2, 3, 4],
         attributes = [Position, Custom 5], vertexCount = 4\<rparr>"

definition M2 :: MeshData where
  "M2 = \<lparr>primitive = Triangles, indices = None, vertexData = [5, 6, 7],
         attributes = [Position, Normal], vertexCount = 3\<rparr>"

definition demoImporter :: PluginImporter where
  "demoImporter =
     \<lparr>doMeshCount = 2,
      doMesh = (\<lambda>i level. if i = 0 then Some M1 else if i = 1 then Some M2 else None),
      doDefaultScene = -1,
      doScene = (\<lambda>i. None),
      doMeshAttributeName = (\<lambda>i. if i = 5 then ''weight'' else []),
      doMeshName = (\<lambda>i. if i = 0 then ''first'' else ''second'')\<rparr>"

definition emptyImporter :: PluginImporter where
  "emptyImporter =
     \<lparr>doMeshCount = 0, doMesh = (\<lambda>i level. None), doDefaultScene = -1,
      doScene = (\<lambda>i. None), doMeshAttributeName = (\<lambda>i. []), doMeshName = (\<lambda>i. [])\<rparr>"

definition demoPlugin :: ImporterPlugin where
  "demoPlugin =
     \<lparr>openFile = (\<lambda>verbose' options file. if file = ''in.obj'' then Some demoImporter else None),
      openMemory = (\<lambda>verbose' options data. None)\<rparr>"

definition demoEnv :: "string Environment" where
  "demoEnv =
     \<lparr>value_UnsignedInt = (\<lambda>s. if s = ''1'' then 1 else 0),
      parseNumberSequence = (\<lambda>s lo hi. if s = ''0'' \<and> lo = 0 \<and> 0 < hi then Some [0] else None),
      importerManager_loadAndInstantiate =
        (\<lambda>n. if n = ''AnySceneImporter'' then Some demoPlugin else None),
      mapRead = (\<lambda>file. None),
      printInfo = (\<lambda>args importer. False),
      flattenMeshHierarchy3D = (\<lambda>scene. []),
      transform3D = (\<lambda>m t. m),
      concatenateBuffers = (\<lambda>ms. (None, concat (map vertexData ms))),
      removeDuplicates = (\<lambda>m. m),
      removeDuplicatesFuzzy = (\<lambda>m eps. m),
      converterManager_loadAndInstantiate =
        (\<lambda>n. if n = ''AnySceneConverter'' \<or> n = ''MeshOnly'' \<or> n = ''MaterialsOnly''
                \<or> n = ''Bare''
             then Some n else None),
      addFlags = (\<lambda>c. c),
      setOptions = (\<lambda>c options. c),
      doFeatures =
        (\<lambda>c. if c = ''AnySceneConverter'' then {ConvertMeshToFile, ConvertMultipleToFile}
             else if c = ''MeshOnly'' then {ConvertMesh}
             else if c = ''MaterialsOnly'' then {ConvertMultiple} else {}),
      sceneContentsFor =
        (\<lambda>c. if c = ''AnySceneConverter'' \<or> c = ''MeshOnly'' then {Meshes, Names}
             else if c = ''MaterialsOnly'' then {Materials} else {}),
      doConvert = (\<lambda>c m. Some m),
      doBeginFile = (\<lambda>c file. Some c),
      doBegin = (\<lambda>c. Some c),
      doSetMeshAttributeName = (\<lambda>c n s. c),
      doAdd = (\<lambda>c m n. Some c),
      addSupportedImporterContents = (\<lambda>c importer contents. Some c),
      doEndFile = (\<lambda>c. True),
      doEnd = (\<lambda>c. Some emptyImporter)\<rparr>"

definition demoArgs :: Arguments where
  "demoArgs =
     \<lparr>arg_input = ''in.obj'', arg_output = ''out.ply'', arg_importer = ''AnySceneImporter'',
      arg_converter = [], arg_mesh_converter = [], arg_map = False,
      arg_only_mesh_attributes = [], arg_remove_duplicate_vertices = False,
      arg_remove_duplicate_vertices_fuzzy = [], arg_importer_options = [],
      arg_converter_options = [], arg_mesh_converter_options = [], arg_mesh = [],
      arg_mesh_level = [], arg_concatenate_meshes = False, arg_info_animations = False,
      arg_info_images = False, arg_info_lights = False, arg_info_cameras = False,
      arg_info_materials = False, arg_info_meshes = False, arg_info_objects = False,
      arg_info_scenes = False, arg_info_skins = False, arg_info_textures = False,
      arg_info = False, arg_verbose = False\<rparr>"

subsection \<open>Observations used in the properties\<close>

text \<open>The entries of the attribute name array of a single-mesh importer for one id.\<close>

definition entriesFor :: "SingleMeshImporter \<Rightarrow> nat \<Rightarrow> (nat \<times> string) list" where
  "entriesFor s i = filter (\<lambda>p. fst p = i) (smi_attributeNames s)"

text \<open>The first mesh of the concrete input with its custom attribute present twice.\<close>

definition twiceCustom :: MeshData where
  "twiceCustom = M1\<lparr>attributes := [Custom 5, Custom 5]\<rparr>"

text \<open>
  The position of a per-mesh operation in the order of the run: attribute filtering comes
  first; for mesh \<open>i\<close>, duplicate removal (exact or fuzzy) comes before converter \<open>j\<close>, and
  the converters follow in the order of their options. Positions compare
  lexicographically.
\<close>

fun meshOperation :: "event \<Rightarrow> (nat \<times> nat) option" where
  "meshOperation (FilterAttributes only) = Some (0, 0)"
| "meshOperation (RemoveDuplicates i) = Some (Suc i, 0)"
| "meshOperation (RemoveDuplicatesFuzzy i eps) = Some (Suc i, 0)"
| "meshOperation (Convert i j n) = Some (Suc i, Suc j)"
| "meshOperation e = None"

definition meshOperations :: "event list \<Rightarrow> (nat \<times> nat) list" where
  "meshOperations tr = List.map_filter meshOperation tr"

definition earlier :: "nat \<times> nat \<Rightarrow> nat \<times> nat \<Rightarrow> bool" where
  "earlier a b = (fst a < fst b \<or> (fst a = fst b \<and> snd a < snd b))"

text \<open>Whether event \<open>b\<close> occurs in a trace after the first occurrence of event \<open>a\<close>.\<close>

definition appliedBefore :: "event \<Rightarrow> event \<Rightarrow> event list \<Rightarrow> bool" where
  "appliedBefore a b tr = (b \<in> set (dropWhile (\<lambda>e. e \<noteq> a) tr))"

text \<open>The duplicate removals, of either mode, applied to mesh \<open>i\<close>.\<close>

fun isDuplicateRemovalOf :: "nat \<Rightarrow> event \<Rightarrow> bool" where
  "isDuplicateRemovalOf i (RemoveDuplicates k) = (k = i)"
| "isDuplicateRemovalOf i (RemoveDuplicatesFuzzy k eps) = (k = i)"
| "isDuplicateRemovalOf i e = False"

text \<open>
  The events each part of the run can produce: up to the single-mesh step, in the
  operations on all meshes, and in the converter chain.
\<close>

fun setupEvent :: "event \<Rightarrow> bool" where
  "setupEvent (Error m) = True"
| "setupEvent (Warning m) = True"
| "setupEvent (Debug m) = True"
| "setupEvent (ManagerConstructed k) = True"
| "setupEvent (LoadAndInstantiate k n) = (k = ImporterManager)"
| "setupEvent (FilterAttributes only) = True"
| "setupEvent e = False"

fun preprocessingEvent :: "event \<Rightarrow> bool" where
  "preprocessingEvent (Error m) = True"
| "preprocessingEvent (Debug m) = True"
| "preprocessingEvent (LoadAndInstantiate k n) = (k = SceneConverterManager)"
| "preprocessingEvent (RemoveDuplicates i) = True"
| "preprocessingEvent (RemoveDuplicatesFuzzy i eps) = True"
| "preprocessingEvent (Convert i j n) = True"
| "preprocessingEvent e = False"

fun chainEvent :: "event \<Rightarrow> bool" where
  "chainEvent (Error m) = True"
| "chainEvent (Warning m) = True"
| "chainEvent (Debug m) = True"
| "chainEvent (LoadAndInstantiate k n) = (k = SceneConverterManager)"
| "chainEvent (BeginFile i file) = True"
| "chainEvent (Begin i) = True"
| "chainEvent (SetMeshAttributeName i n s) = True"
| "chainEvent (Add i k n) = True"
| "chainEvent (AddSupportedImporterContents i c) = True"
| "chainEvent (EndFile i) = True"
| "chainEvent (End i) = True"
| "chainEvent e = False"

text \<open>
  Two option sets on the concrete input: one asks for mesh 0 alone with attribute
  filtering, exact duplicate removal and a mesh converter; the other asks for both modes
  of duplicate removal at once.
\<close>

definition orderArgs :: Arguments where
  "orderArgs = demoArgs\<lparr>arg_mesh := ''0'', arg_only_mesh_attributes := ''0'',
     arg_remove_duplicate_vertices := True, arg_mesh_converter := [''MeshOnly'']\<rparr>"

definition bothArgs :: Arguments where
  "bothArgs = demoArgs\<lparr>arg_remove_duplicate_vertices := True,
     arg_remove_duplicate_vertices_fuzzy := ''0.5''\<rparr>"

text \<open>
  The exit code that follows each diagnostic in the source; after any other event the run
  goes on.
\<close>

fun errorExitCode :: "message \<Rightarrow> int" where
  "errorExitCode MeshAndConcatenateMeshesMutuallyExclusive = 1"
| "errorExitCode MeshLevelOnlyWithMesh = 1"
| "errorExitCode OnlyMeshAttributesOnlyWithMeshOrConcatenate = 1"
| "errorExitCode CannotMemoryMapFile = 3"
| "errorExitCode CannotOpenFile = 3"
| "errorExitCode NoMeshesFound = 1"
| "errorExitCode (CannotImportMesh i) = 1"
| "errorExitCode CannotImportScene = 1"
| "errorExitCode CannotImportTheMesh = 4"
| "errorExitCode (DoesntSupportMeshConversion n) = 1"
| "errorExitCode (CannotProcessMesh i n) = 1"
| "errorExitCode CannotBeginConversionOfFile = 1"
| "errorExitCode (DoesntSupportImporterConversion n) = 6"
| "errorExitCode CannotBeginImporterConversion = 1"
| "errorExitCode (CannotAddMesh i) = 1"
| "errorExitCode CannotAddImporterContents = 5"
| "errorExitCode CannotEndConversionOfFile = 5"
| "errorExitCode CannotEndImporterConversion = 1"

fun listingExitCode :: "listing \<Rightarrow> int" where
  "listingExitCode AvailableImporterPlugins = 1"
| "listingExitCode AvailableMeshConverterPlugins = 2"
| "listingExitCode AvailableConverterPlugins = 2"

fun exitCodeAfter :: "event \<Rightarrow> int option" where
  "exitCodeAfter (Error m) = Some (errorExitCode m)"
| "exitCodeAfter (Debug l) = Some (listingExitCode l)"
| "exitCodeAfter e = None"

definition exitsAsDiagnosed :: "'a run \<Rightarrow> bool" where
  "exitsAsDiagnosed r =
     (\<forall>e c. e \<in> set (fst r) \<and> exitCodeAfter e = Some c \<longrightarrow> snd r = Inl (Exit c))"

text \<open>
  Variants of the concrete collaborators in which adding a mesh, adding the importer
  contents, or ending the file fails.
\<close>

definition addFailsEnv :: "string Environment" where
  "addFailsEnv = demoEnv\<lparr>doAdd := (\<lambda>c m n. None)\<rparr>"

definition contentsFailEnv :: "string Environment" where
  "contentsFailEnv = demoEnv\<lparr>addSupportedImporterContents := (\<lambda>c importer contents. None)\<rparr>"

definition endFileFailsEnv :: "string Environment" where
  "endFileFailsEnv = demoEnv\<lparr>doEndFile := (\<lambda>c. False)\<rparr>"

text \<open>The calls that hand a converter something to convert or make it produce output.\<close>

fun isConverterCall :: "event \<Rightarrow> bool" where
  "isConverterCall (BeginFile i file) = True"
| "isConverterCall (Begin i) = True"
| "isConverterCall (SetMeshAttributeName i n s) = True"
| "isConverterCall (Add i k n) = True"
| "isConverterCall (AddSupportedImporterContents i c) = True"
| "isConverterCall (EndFile i) = True"
| "isConverterCall (End i) = True"
| "isConverterCall e = False"

text \<open>
  More option sets and sources for the concrete input: one converter that declares only
  \<open>ConvertMesh\<close>, or nothing at all, before the implicit last one; the same with loose
  meshes from duplicate removal; concatenation; and a source whose second mesh is made
  of lines.
\<close>

definition meshOnlyArgs :: Arguments where
  "meshOnlyArgs = demoArgs\<lparr>arg_converter := [''MeshOnly'']\<rparr>"

definition bareArgs :: Arguments where
  "bareArgs = demoArgs\<lparr>arg_converter := [''Bare'']\<rparr>"

definition looseChainArgs :: Arguments where
  "looseChainArgs = demoArgs\<lparr>arg_converter := [''MeshOnly''],
     arg_remove_duplicate_vertices := True\<rparr>"

definition concatenateArgs :: Arguments where
  "concatenateArgs = demoArgs\<lparr>arg_concatenate_meshes := True\<rparr>"

definition linesImporter :: PluginImporter where
  "linesImporter = demoImporter\<lparr>doMesh :=
     (\<lambda>i level. if i = 0 then Some M1 else if i = 1 then Some (M2\<lparr>primitive := Lines\<rparr>)
                 else None)\<rparr>"

definition linesEnv :: "string Environment" where
  "linesEnv = demoEnv\<lparr>importerManager_loadAndInstantiate :=
     (\<lambda>n. Some \<lparr>openFile = (\<lambda>verbose' options file. Some linesImporter),
                 openMemory = (\<lambda>verbose' options data. None)\<rparr>)\<rparr>"

definition materialsArgs :: Arguments where
  "materialsArgs = demoArgs\<lparr>arg_converter := [''MaterialsOnly'']\<rparr>"

section \<open>Properties\<close>

subsection \<open>Sequencing\<close>

lemma fst_then_do:
  "fst (then_do r f) = fst r @ (case snd r of Inl out \<Rightarrow> [] | Inr x \<Rightarrow> fst (f x))"
  by (cases r; cases "snd r") auto

lemma snd_then_do:
  "snd (then_do r f) = (case snd r of Inl out \<Rightarrow> Inl out | Inr x \<Rightarrow> snd (f x))"
  by (cases r; cases "snd r") auto

subsection \<open>Option checks\<close>

text \<open>
  C5. Whenever both \<open>--mesh\<close> and \<open>--concatenate-meshes\<close> are given the run ends with exit
  code 1 and the mutual-exclusion error. The trace is that error, preceded at most by the
  warning about an ignored output file: no plugin manager was constructed, no plugin
  loaded, no mesh imported and nothing concatenated.
\<close>

theorem mesh_and_concatenate_meshes_rejected:
  assumes "arg_concatenate_meshes args" and "arg_mesh args \<noteq> []"
  shows "main env args =
           ((if arg_output args \<noteq> [] \<and> isInfoRequested args
             then [Warning IgnoringOutputFileForInfo] else [])
            @ [Error MeshAndConcatenateMeshesMutuallyExclusive], Exit 1)"
  using assms
  by (simp add: main_def pipeline_def prepare_def genericChecks_def emit_def ret_def fail_def)

theorem mesh_and_concatenate_meshes_rejected_witness:
  "main demoEnv (demoArgs\<lparr>arg_concatenate_meshes := True, arg_mesh := ''0''\<rparr>)
   = ([Error MeshAndConcatenateMeshesMutuallyExclusive], Exit 1)"
  using mesh_and_concatenate_meshes_rejected
          [of "demoArgs\<lparr>arg_concatenate_meshes := True, arg_mesh := ''0''\<rparr>" demoEnv]
  by (simp add: demoArgs_def isInfoRequested_def)

subsection \<open>The single-mesh importer\<close>

lemma collectAttributeNames_append:
  "collectAttributeNames original as names = names @ collectAttributeNames original as []"
proof (induction as arbitrary: names)
  case Nil
  show ?case by simp
next
  case (Cons a as)
  show ?case
  proof (cases a)
    case (Custom i)
    have "collectAttributeNames original (a # as) names
          = (names @ [(i, doMeshAttributeName original i)]) @ collectAttributeNames original as []"
      using Cons.IH[of "names @ [(i, doMeshAttributeName original i)]"] Custom by simp
    moreover have "collectAttributeNames original (a # as) []
          = [(i, doMeshAttributeName original i)] @ collectAttributeNames original as []"
      using Cons.IH[of "[(i, doMeshAttributeName original i)]"] Custom by simp
    ultimately show ?thesis by simp
  qed (use Cons.IH[of names] in simp_all)
qed

lemma collectAttributeNames_Cons:
  "collectAttributeNames original (a # as) []
   = (case a of Custom i \<Rightarrow> [(i, doMeshAttributeName original i)] | _ \<Rightarrow> [])
     @ collectAttributeNames original as []"
proof (cases a)
  case (Custom i)
  then show ?thesis
    using collectAttributeNames_append[of original as "[(i, doMeshAttributeName original i)]"]
    by simp
qed simp_all

lemma findAttributeName_collected:
  "Custom i \<in> set as \<Longrightarrow>
   findAttributeName (collectAttributeNames original as []) i
     = Some (doMeshAttributeName original i)"
proof (induction as)
  case Nil
  then show ?case by simp
next
  case (Cons a as)
  then show ?case
    by (cases a) (auto simp: collectAttributeNames_Cons simp del: collectAttributeNames.simps)
qed

lemma filter_collected:
  "filter (\<lambda>p. fst p = i) (collectAttributeNames original as [])
   = replicate (count_list as (Custom i)) (i, doMeshAttributeName original i)"
proof (induction as)
  case Nil
  show ?case by simp
next
  case (Cons a as)
  then show ?case
    by (cases a) (auto simp: collectAttributeNames_Cons simp del: collectAttributeNames.simps)
qed

text \<open>
  C7, as stated, fails: an id gets one entry for each attribute of the mesh that carries
  it, and a mesh may carry the same custom attribute more than once. Here id 5 is present
  and has two entries.
\<close>

theorem attribute_name_entries_counterexample:
  "Custom 5 \<in> set (attributes twiceCustom)
   \<and> length (entriesFor (SingleMeshImporter_new twiceCustom ''first'' demoImporter) 5) = 2"
  by (simp add: twiceCustom_def entriesFor_def SingleMeshImporter_new_def M1_def
      demoImporter_def)

text \<open>
  C7, amended. For a custom attribute id present in the carried mesh, the importer built
  from the mesh holds one entry per occurrence of the attribute in the mesh, at least one,
  each with the name the original importer had for the id at construction time (empty or
  not). A later \<open>meshAttributeName\<close> lookup for the id returns that name, so the
  unreachable branch is not taken; and the carried mesh is the one given.
\<close>

theorem attribute_names_registered:
  assumes "Custom i \<in> set (attributes m)"
  shows "entriesFor (SingleMeshImporter_new m n original) i
           = replicate (count_list (attributes m) (Custom i))
               (i, doMeshAttributeName original i)
         \<and> 0 < count_list (attributes m) (Custom i)
         \<and> meshAttributeName (SingleMesh (SingleMeshImporter_new m n original)) i
             = Some (doMeshAttributeName original i)
         \<and> smi_mesh (SingleMeshImporter_new m n original) = m"
proof -
  have "count_list (attributes m) (Custom i) \<noteq> 0"
    using assms by (simp add: count_list_0_iff)
  then show ?thesis
    using assms
    by (simp add: entriesFor_def SingleMeshImporter_new_def filter_collected
        findAttributeName_collected SingleMeshImporter_doMeshAttributeName_def)
qed

theorem attribute_names_registered_witness:
  "entriesFor (SingleMeshImporter_new M1 ''first'' demoImporter) 5 = [(5, ''weight'')]
   \<and> meshAttributeName (SingleMesh (SingleMeshImporter_new M1 ''first'' demoImporter)) 5
       = Some ''weight''"
  using attribute_names_registered[of 5 M1 "''first''" demoImporter]
  by (simp add: M1_def demoImporter_def)

subsection \<open>Events of each part of the run\<close>

lemma list_all_then_do:
  assumes "list_all P (fst r)" and "\<And>x. snd r = Inr x \<Longrightarrow> list_all P (fst (f x))"
  shows "list_all P (fst (then_do r f))"
  using assms by (cases r; cases "snd r") auto

lemma fst_ret [simp]: "fst (ret x) = []"
  by (simp add: ret_def)

lemma snd_ret [simp]: "snd (ret x) = Inr x"
  by (simp add: ret_def)

lemma fst_emit [simp]: "fst (emit e) = [e]"
  by (simp add: emit_def)

lemma snd_emit [simp]: "snd (emit e) = Inr ()"
  by (simp add: emit_def)

lemma fst_fail [simp]: "fst (fail m c) = [Error m]"
  by (simp add: fail_def)

lemma snd_fail [simp]: "snd (fail m c) = Inl (Exit c)"
  by (simp add: fail_def)

lemma fst_abort [simp]: "fst (abort a) = []"
  by (simp add: abort_def)

lemma snd_abort [simp]: "snd (abort a) = Inl (Abort a)"
  by (simp add: abort_def)

lemma fst_exit_with [simp]: "fst (exit_with c) = []"
  by (simp add: exit_with_def)

lemma snd_exit_with [simp]: "snd (exit_with c) = Inl (Exit c)"
  by (simp add: exit_with_def)

lemma genericChecks_events: "list_all setupEvent (fst (genericChecks args))"
  by (simp add: genericChecks_def fst_then_do)

lemma openInput_events: "list_all setupEvent (fst (openInput env args))"
  by (simp add: openInput_def fst_then_do snd_then_do split: option.split)

lemma importMeshes_events: "list_all setupEvent (fst (importMeshes importer is meshes))"
  by (induction importer "is" meshes rule: importMeshes.induct) (simp_all split: option.split)

lemma transformMeshes_events: "list_all setupEvent (fst (transformMeshes env meshes ts fl))"
  by (induction env meshes ts fl rule: transformMeshes.induct) simp_all

lemma meshOperations_Nil [simp]: "meshOperations [] = []"
  by (simp add: meshOperations_def map_filter_simps)

lemma meshOperations_Cons [simp]:
  "meshOperations (e # tr) = (case meshOperation e of None \<Rightarrow> [] | Some k \<Rightarrow> [k]) @ meshOperations tr"
  by (simp add: meshOperations_def map_filter_simps split: option.split)

lemma meshOperations_append [simp]:
  "meshOperations (xs @ ys) = meshOperations xs @ meshOperations ys"
  by (induction xs) simp_all

lemma importMeshes_ops: "meshOperations (fst (importMeshes importer is meshes)) = []"
  by (induction importer "is" meshes rule: importMeshes.induct) (simp_all split: option.split)

lemma transformMeshes_ops: "meshOperations (fst (transformMeshes env meshes ts fl)) = []"
  by (induction env meshes ts fl rule: transformMeshes.induct) simp_all

lemma concatenateMeshes_ops: "meshOperations (fst (concatenateMeshes env importer)) = []"
  by (simp add: concatenateMeshes_def meshesToConcatenate_def fst_then_do snd_then_do
      importMeshes_ops transformMeshes_ops split: option.split sum.split)

lemma filterAttributes_ops:
  "meshOperations (fst (filterAttributes env args m)) = []
   \<or> meshOperations (fst (filterAttributes env args m)) = [(0, 0)]"
  by (simp add: filterAttributes_def fst_then_do split: option.split)

lemma singleMesh_ops:
  "meshOperations (fst (singleMesh env args importer)) = []
   \<or> meshOperations (fst (singleMesh env args importer)) = [(0, 0)]"
  using filterAttributes_ops[of env args]
  by (auto simp add: singleMesh_def fst_then_do snd_then_do concatenateMeshes_ops
      split: option.split sum.split)

lemma removeDuplicateVertices_ops:
  "meshOperations (fst (removeDuplicateVertices env args i m)) = []
   \<or> meshOperations (fst (removeDuplicateVertices env args i m)) = [(Suc i, 0)]"
  by (simp add: removeDuplicateVertices_def fst_then_do)

lemma meshConverters_ops:
  "sorted_wrt earlier (meshOperations (fst (meshConverters env args i (enumerate n names) m)))
   \<and> (\<forall>k \<in> set (meshOperations (fst (meshConverters env args i (enumerate n names) m))).
         fst k = Suc i \<and> n < snd k)"
proof (induction names arbitrary: n m)
  case Nil
  show ?case by simp
next
  case (Cons name names)
  show ?case
  proof (cases "converterManager_loadAndInstantiate env name")
    case None
    then show ?thesis by (simp add: fst_then_do)
  next
    case (Some loaded)
    let ?c = "configured env (arg_verbose args) (arg_mesh_converter_options args) n loaded"
    show ?thesis
    proof (cases "ConvertMesh \<in> doFeatures env ?c")
      case False
      then show ?thesis using Some by (simp add: fst_then_do Let_def)
    next
      case True
      show ?thesis
      proof (cases "doConvert env ?c m")
        case None
        then show ?thesis using Some True by (simp add: fst_then_do snd_then_do Let_def)
      next
        case (Some m')
        have rest: "sorted_wrt earlier (meshOperations (fst (meshConverters env args i (enumerate (Suc n) names) m')))
          \<and> (\<forall>k \<in> set (meshOperations (fst (meshConverters env args i (enumerate (Suc n) names) m'))).
                fst k = Suc i \<and> Suc n < snd k)"
          using Cons.IH[of "Suc n" m'] .
        have tr: "meshOperations (fst (meshConverters env args i (enumerate n (name # names)) m))
                  = (Suc i, Suc n) # meshOperations (fst (meshConverters env args i (enumerate (Suc n) names) m'))"
          using \<open>converterManager_loadAndInstantiate env name = Some loaded\<close> True Some
          by (simp add: fst_then_do snd_then_do Let_def)
        have "\<forall>k \<in> set (meshOperations (fst (meshConverters env args i (enumerate (Suc n) names) m'))).
                earlier (Suc i, Suc n) k"
          using rest by (auto simp: earlier_def)
        then show ?thesis unfolding tr using rest by auto
      qed
    qed
  qed
qed

lemma removeDuplicateVertices_returns:
  "\<exists>m'. snd (removeDuplicateVertices env args i m) = Inr m'"
  by (simp add: removeDuplicateVertices_def snd_then_do)

lemma processMeshLoop_ops:
  assumes "sorted_wrt (<) is"
  shows "sorted_wrt earlier (meshOperations (fst (processMeshLoop env args importer is meshes)))
   \<and> (\<forall>k \<in> set (meshOperations (fst (processMeshLoop env args importer is meshes))).
         \<exists>i \<in> set is. fst k = Suc i)"
  using assms
proof (induction "is" arbitrary: meshes)
  case Nil
  show ?case by simp
next
  case (Cons i rest)
  show ?case
  proof (cases "mesh importer i 0")
    case None
    then show ?thesis by simp
  next
    case (Some m)
    let ?d = "removeDuplicateVertices env args i m"
    obtain m1 where m1: "snd ?d = Inr m1"
      using removeDuplicateVertices_returns by blast
    let ?c = "meshConverters env args i (enumerate 0 (arg_mesh_converter args)) m1"
    have d: "meshOperations (fst ?d) = [] \<or> meshOperations (fst ?d) = [(Suc i, 0)]"
      by (rule removeDuplicateVertices_ops)
    have c: "sorted_wrt earlier (meshOperations (fst ?c))"
         "\<forall>k \<in> set (meshOperations (fst ?c)). fst k = Suc i \<and> 0 < snd k"
      using meshConverters_ops[of env args i 0 "arg_mesh_converter args" m1] by auto
    show ?thesis
    proof (cases "snd ?c")
      case (Inl out)
      have tr: "meshOperations (fst (processMeshLoop env args importer (i # rest) meshes))
                = meshOperations (fst ?d) @ meshOperations (fst ?c)"
        using Some m1 Inl by (simp add: fst_then_do snd_then_do)
      have "\<forall>x \<in> set (meshOperations (fst ?d)). \<forall>y \<in> set (meshOperations (fst ?c)). earlier x y"
        using d c(2) by (fastforce simp: earlier_def)
      then show ?thesis unfolding tr using d c by (auto simp: sorted_wrt_append)
    next
      case (Inr m2)
      let ?r = "processMeshLoop env args importer rest (meshes @ [m2])"
      have r: "sorted_wrt earlier (meshOperations (fst ?r))"
           "\<forall>k \<in> set (meshOperations (fst ?r)). \<exists>i \<in> set rest. fst k = Suc i"
        using Cons.IH[of "meshes @ [m2]"] Cons.prems by auto
      have later: "\<forall>k \<in> set (meshOperations (fst ?r)). Suc i < fst k"
        using r(2) Cons.prems by auto
      have tr: "meshOperations (fst (processMeshLoop env args importer (i # rest) meshes))
                = meshOperations (fst ?d) @ meshOperations (fst ?c) @ meshOperations (fst ?r)"
        using Some m1 Inr by (simp add: fst_then_do snd_then_do)
      have "\<forall>x \<in> set (meshOperations (fst ?c)). \<forall>y \<in> set (meshOperations (fst ?r)). earlier x y"
        using c(2) later by (fastforce simp: earlier_def)
      then have cr: "sorted_wrt earlier (meshOperations (fst ?c) @ meshOperations (fst ?r))"
        using c(1) r(1) by (simp add: sorted_wrt_append)
      have "\<forall>x \<in> set (meshOperations (fst ?d)).
              \<forall>y \<in> set (meshOperations (fst ?c) @ meshOperations (fst ?r)). earlier x y"
        using d c(2) later by (fastforce simp: earlier_def)
      then have "sorted_wrt earlier
                   (meshOperations (fst ?d) @ meshOperations (fst ?c) @ meshOperations (fst ?r))"
        using d cr by (auto simp: sorted_wrt_append)
      moreover have "\<forall>k \<in> set (meshOperations (fst ?d) @ meshOperations (fst ?c)
                                  @ meshOperations (fst ?r)).
                       \<exists>i' \<in> set (i # rest). fst k = Suc i'"
        using d c(2) r(2) by auto
      ultimately show ?thesis unfolding tr by blast
    qed
  qed
qed

lemma meshesToConcatenate_events:
  "list_all setupEvent (fst (meshesToConcatenate env importer))"
  by (auto simp add: meshesToConcatenate_def importMeshes_events transformMeshes_events
      intro!: list_all_then_do split: option.split)

lemma concatenateMeshes_events: "list_all setupEvent (fst (concatenateMeshes env importer))"
  by (auto simp add: concatenateMeshes_def meshesToConcatenate_events
      intro!: list_all_then_do split: option.split)

lemma filterAttributes_events: "list_all setupEvent (fst (filterAttributes env args m))"
  by (simp add: filterAttributes_def fst_then_do split: option.split)

lemma singleMesh_events: "list_all setupEvent (fst (singleMesh env args importer))"
  by (auto simp add: singleMesh_def concatenateMeshes_events filterAttributes_events
      intro!: list_all_then_do split: option.split)

lemma removeDuplicateVertices_events:
  "list_all preprocessingEvent (fst (removeDuplicateVertices env args i m))"
  by (simp add: removeDuplicateVertices_def fst_then_do)

lemma meshConverters_events:
  "list_all preprocessingEvent (fst (meshConverters env args i jns m))"
  by (induction env args i jns m rule: meshConverters.induct)
     (auto simp add: Let_def intro!: list_all_then_do split: option.split)

lemma processMeshLoop_events:
  "list_all preprocessingEvent (fst (processMeshLoop env args importer is meshes))"
  by (induction env args importer "is" meshes rule: processMeshLoop.induct)
     (auto simp add: removeDuplicateVertices_events meshConverters_events
       intro!: list_all_then_do split: option.split)

lemma processMeshes_events:
  "list_all preprocessingEvent (fst (processMeshes env args importer))"
  by (simp add: processMeshes_def processMeshLoop_events)

lemma propagateAttributeNames_events:
  "list_all chainEvent (fst (propagateAttributeNames env stage importer as converter))"
  by (induction env stage importer as converter rule: propagateAttributeNames.induct)
     (auto intro!: list_all_then_do split: option.split MeshAttribute.split)

lemma addMeshes_events:
  "list_all chainEvent (fst (addMeshes env stage importer contents ms converter))"
  by (induction env stage importer contents ms converter rule: addMeshes.induct)
     (auto simp add: Let_def propagateAttributeNames_events
       intro!: list_all_then_do split: option.split)

lemma addLooseMeshes_events:
  "list_all chainEvent (fst (addLooseMeshes env stage importer converter meshes contents))"
  by (auto simp add: addLooseMeshes_def addMeshes_events intro!: list_all_then_do)

lemma beginConversion_events:
  "list_all chainEvent (fst (beginConversion env args i n converter))"
  by (auto simp add: beginConversion_def intro!: list_all_then_do split: option.split)

lemma endConversion_events:
  "list_all chainEvent (fst (endConversion env i isLast importer meshes contents converter))"
  by (auto simp add: endConversion_def intro!: list_all_then_do split: option.split)

lemma converterStage_events:
  "list_all chainEvent (fst (converterStage env args i n importer meshes))"
  by (auto simp add: converterStage_def Let_def beginConversion_events addLooseMeshes_events
       endConversion_events
       intro!: list_all_then_do split: option.split prod.split)

lemma converterChain_events:
  "list_all chainEvent (fst (converterChain env args sts importer meshes))"
  by (induction env args sts importer meshes rule: converterChain.induct)
     (auto simp add: converterStage_events intro!: list_all_then_do)

lemma no_meshOperations:
  "list_all (\<lambda>e. meshOperation e = None) tr \<Longrightarrow> meshOperations tr = []"
  by (induction tr) simp_all

lemma chainEvent_no_meshOperation: "chainEvent e \<Longrightarrow> meshOperation e = None"
  by (cases e) simp_all

lemma converterChain_ops:
  "meshOperations (fst (converterChain env args sts importer meshes)) = []"
proof -
  have "list_all chainEvent (fst (converterChain env args sts importer meshes))"
    by (rule converterChain_events)
  then have "list_all (\<lambda>e. meshOperation e = None) (fst (converterChain env args sts importer meshes))"
    by (simp add: list_all_iff chainEvent_no_meshOperation)
  then show ?thesis by (rule no_meshOperations)
qed

lemma genericChecks_ops: "meshOperations (fst (genericChecks args)) = []"
  by (simp add: genericChecks_def fst_then_do)

lemma openInput_ops: "meshOperations (fst (openInput env args)) = []"
  by (simp add: openInput_def fst_then_do snd_then_do split: option.split)

lemma processMeshes_ops:
  "sorted_wrt earlier (meshOperations (fst (processMeshes env args importer)))
   \<and> (\<forall>k \<in> set (meshOperations (fst (processMeshes env args importer))). 0 < fst k)"
proof (cases "arg_remove_duplicate_vertices args \<or> arg_remove_duplicate_vertices_fuzzy args \<noteq> []
         \<or> arg_mesh_converter args \<noteq> []")
  case True
  have "sorted_wrt (<) [0..<meshCount importer]"
    by (simp add: sorted_wrt_upt)
  from processMeshLoop_ops[OF this, of env args importer "[]"] True
  show ?thesis by (auto simp add: processMeshes_def)
next
  case False
  then show ?thesis by (simp add: processMeshes_def)
qed

lemma meshOperations_then_do:
  "meshOperations (fst (then_do r f))
   = meshOperations (fst r) @ (case snd r of Inl out \<Rightarrow> [] | Inr x \<Rightarrow> meshOperations (fst (f x)))"
  by (simp add: fst_then_do split: sum.split)

lemma prepare_ops: "sorted_wrt earlier (meshOperations (fst (prepare env args)))"
proof -
  have single: "sorted_wrt earlier (meshOperations (fst (singleMesh env args importer)))"
    for importer
    using singleMesh_ops[of env args importer] by auto
  have both: "sorted_wrt earlier (meshOperations (fst (singleMesh env args importer))
                @ meshOperations (fst (processMeshes env args imp)))"
    for importer imp
  proof -
    have "\<forall>x \<in> set (meshOperations (fst (singleMesh env args importer))).
            \<forall>y \<in> set (meshOperations (fst (processMeshes env args imp))). earlier x y"
      using singleMesh_ops[of env args importer] processMeshes_ops[of env args imp]
      by (fastforce simp: earlier_def)
    then show ?thesis
      using single[of importer] processMeshes_ops[of env args imp]
      by (simp add: sorted_wrt_append)
  qed
  show ?thesis
    unfolding prepare_def
    by (simp add: meshOperations_then_do genericChecks_ops openInput_ops
        single both split: sum.split)
qed

lemma pipeline_ops: "sorted_wrt earlier (meshOperations (fst (pipeline env args)))"
  by (simp add: pipeline_def meshOperations_then_do prepare_ops converterChain_ops
      split: sum.split prod.split)

lemma fst_main: "fst (main env args) = fst (pipeline env args)"
  by (simp add: main_def split: prod.split sum.split)

lemma main_meshOperations_sorted: "sorted_wrt earlier (meshOperations (fst (main env args)))"
  by (simp add: fst_main pipeline_ops)

lemma sorted_wrt_earlier_once:
  "sorted_wrt earlier xs \<Longrightarrow> length (filter (\<lambda>k. k = a) xs) \<le> 1"
proof (induction xs)
  case Nil
  show ?case by simp
next
  case (Cons x xs)
  show ?case
  proof (cases "x = a")
    case True
    have "\<forall>y \<in> set xs. earlier a y" using Cons.prems True by simp
    then have "\<forall>y \<in> set xs. y \<noteq> a" by (auto simp: earlier_def)
    then have "filter (\<lambda>k. k = a) xs = []" by (simp add: filter_empty_conv)
    then show ?thesis using True by simp
  next
    case False
    then show ?thesis using Cons by simp
  qed
qed

lemma duplicate_removals_as_operations:
  "length (filter (isDuplicateRemovalOf i) tr)
   = length (filter (\<lambda>k. k = (Suc i, 0)) (meshOperations tr))"
proof (induction tr)
  case Nil
  show ?case by simp
next
  case (Cons e tr)
  then show ?case by (cases e) auto
qed

subsection \<open>Evaluating the concrete input\<close>

lemmas run_defs =
  main_def pipeline_def prepare_def genericChecks_def isInfoRequested_def openInput_def singleMesh_def
  concatenateMeshes_def meshesToConcatenate_def filterAttributes_def
  removeDuplicateVertices_def processMeshes_def
  converterStage_def configured_def isLastConverter_def beginConversion_def
  addLooseMeshes_def endConversion_def stages_def
  ret_def emit_def fail_def abort_def exit_with_def
  attributeCount_def concatenate_def concatenable_def
  SingleMeshImporter_new_def SingleMeshImporter_doMeshCount_def SingleMeshImporter_doMesh_def
  SingleMeshImporter_doMeshName_def SingleMeshImporter_doMeshAttributeName_def

lemmas demo_defs = demoEnv_def demoArgs_def demoPlugin_def demoImporter_def emptyImporter_def
  M1_def M2_def

lemma orderArgs_trace: "main demoEnv orderArgs =
  ([ManagerConstructed ImporterManager,
   ManagerConstructed ImageConverterManager,
   ManagerConstructed SceneConverterManager,
   LoadAndInstantiate ImporterManager ''AnySceneImporter'',
   FilterAttributes [0], RemoveDuplicates 0,
   LoadAndInstantiate SceneConverterManager ''MeshOnly'',
   Convert 0 0 ''MeshOnly'',
   LoadAndInstantiate SceneConverterManager ''AnySceneConverter'',
   BeginFile 0 ''out.ply'', Add 0 0 ''first'',
   AddSupportedImporterContents 0 (- {Meshes}), EndFile 0],
  Exit 0)"
  by (simp add: run_defs demo_defs orderArgs_def enumerate_eq_zip)

lemma bothArgs_trace: "main demoEnv bothArgs =
  ([ManagerConstructed ImporterManager,
    ManagerConstructed ImageConverterManager,
    ManagerConstructed SceneConverterManager,
    LoadAndInstantiate ImporterManager ''AnySceneImporter'',
    RemoveDuplicatesFuzzy 0 ''0.5'', RemoveDuplicatesFuzzy 1 ''0.5'',
    LoadAndInstantiate SceneConverterManager ''AnySceneConverter'',
    BeginFile 0 ''out.ply'', SetMeshAttributeName 0 5 ''weight'',
    Add 0 0 ''first'', Add 0 1 ''second'',
    AddSupportedImporterContents 0 (- {Meshes}), EndFile 0],
   Exit 0)"
  by (simp add: run_defs demo_defs bothArgs_def enumerate_eq_zip numeral_2_eq_2)

subsection \<open>Order of the operations on a mesh\<close>

text \<open>
  C1, as stated, fails: with one mesh selected and both attribute filtering and duplicate
  removal requested, the attributes are filtered first, in the single-mesh step, and the
  duplicates are removed afterwards, in the loop over all meshes.
\<close>

theorem filtering_precedes_duplicate_removal_counterexample:
  "appliedBefore (FilterAttributes [0]) (RemoveDuplicates 0) (fst (main demoEnv orderArgs))
   \<and> \<not> appliedBefore (RemoveDuplicates 0) (FilterAttributes [0]) (fst (main demoEnv orderArgs))"
  by (simp add: orderArgs_trace appliedBefore_def)

text \<open>
  C1, amended. In every run the per-mesh operations occur in strictly increasing position:
  attribute filtering (at most once, on the one mesh in scope) before everything else;
  then, mesh by mesh, duplicate removal if requested, followed by each mesh converter in
  the order given.
\<close>

theorem mesh_operations_in_order:
  "sorted_wrt earlier (meshOperations (fst (main env args)))"
  by (rule main_meshOperations_sorted)

theorem mesh_operations_in_order_witness:
  "meshOperations (fst (main demoEnv orderArgs)) = [(0, 0), (1, 0), (1, 1)]
   \<and> sorted_wrt earlier [(0, 0), (1, 0), (1, 1)]"
  using mesh_operations_in_order[of demoEnv orderArgs]
  by (simp add: orderArgs_trace)

text \<open>
  C6. In every run, whatever the options, each mesh sees at most one duplicate removal,
  exact or fuzzy: the two modes are never both applied to a mesh.
\<close>

theorem duplicate_removal_modes_exclusive:
  "length (filter (isDuplicateRemovalOf i) (fst (main env args))) \<le> 1"
  using sorted_wrt_earlier_once[OF main_meshOperations_sorted, of "(Suc i, 0)" env args]
  by (simp add: duplicate_removals_as_operations)

theorem duplicate_removal_modes_exclusive_witness:
  "arg_remove_duplicate_vertices bothArgs
   \<and> arg_remove_duplicate_vertices_fuzzy bothArgs = ''0.5''
   \<and> filter (isDuplicateRemovalOf 1) (fst (main demoEnv bothArgs))
       = [RemoveDuplicatesFuzzy 1 ''0.5'']
   \<and> length (filter (isDuplicateRemovalOf 1) (fst (main demoEnv bothArgs))) \<le> 1"
  using duplicate_removal_modes_exclusive[of 1 demoEnv bothArgs]
  by (simp add: bothArgs_trace) (simp add: bothArgs_def)

subsection \<open>Exit codes\<close>

lemma exitsAsDiagnosed_then_do:
  assumes "exitsAsDiagnosed r" and "\<And>x. snd r = Inr x \<Longrightarrow> exitsAsDiagnosed (f x)"
  shows "exitsAsDiagnosed (then_do r f)"
proof (cases r)
  case (Pair tr res)
  show ?thesis
  proof (cases res)
    case (Inl out)
    then show ?thesis using assms(1) Pair by (simp add: exitsAsDiagnosed_def)
  next
    case (Inr x)
    have "exitsAsDiagnosed (f x)" using assms(2) Pair Inr by simp
    moreover have "\<forall>e c. e \<in> set tr \<longrightarrow> exitCodeAfter e \<noteq> Some c"
      using assms(1) Pair Inr by (auto simp: exitsAsDiagnosed_def)
    ultimately show ?thesis using Pair Inr by (auto simp: exitsAsDiagnosed_def)
  qed
qed

lemma exitsAsDiagnosed_ret [simp]: "exitsAsDiagnosed (ret x)"
  by (simp add: exitsAsDiagnosed_def)

lemma exitsAsDiagnosed_abort [simp]: "exitsAsDiagnosed (abort a)"
  by (simp add: exitsAsDiagnosed_def)

lemma exitsAsDiagnosed_exit_with [simp]: "exitsAsDiagnosed (exit_with c)"
  by (simp add: exitsAsDiagnosed_def)

lemma exitsAsDiagnosed_emit [simp]: "exitCodeAfter e = None \<Longrightarrow> exitsAsDiagnosed (emit e)"
  by (simp add: exitsAsDiagnosed_def)

lemma exitsAsDiagnosed_fail [simp]: "exitsAsDiagnosed (fail m c) \<longleftrightarrow> c = errorExitCode m"
  by (auto simp: exitsAsDiagnosed_def)

lemma exitsAsDiagnosed_listing [simp]:
  "exitsAsDiagnosed ([Debug l], Inl (Exit c)) \<longleftrightarrow> c = listingExitCode l"
  by (auto simp: exitsAsDiagnosed_def)

lemma genericChecks_exits: "exitsAsDiagnosed (genericChecks args)"
  by (auto simp add: genericChecks_def intro!: exitsAsDiagnosed_then_do)

lemma openInput_exits: "exitsAsDiagnosed (openInput env args)"
  by (auto simp add: openInput_def intro!: exitsAsDiagnosed_then_do split: option.split)

lemma importMeshes_exits: "exitsAsDiagnosed (importMeshes importer is meshes)"
  by (induction importer "is" meshes rule: importMeshes.induct) (simp_all split: option.split)

lemma transformMeshes_exits: "exitsAsDiagnosed (transformMeshes env meshes ts fl)"
  by (induction env meshes ts fl rule: transformMeshes.induct) simp_all

lemma meshesToConcatenate_exits: "exitsAsDiagnosed (meshesToConcatenate env importer)"
  by (auto simp add: meshesToConcatenate_def importMeshes_exits transformMeshes_exits
      intro!: exitsAsDiagnosed_then_do split: option.split)

lemma concatenateMeshes_exits: "exitsAsDiagnosed (concatenateMeshes env importer)"
  by (auto simp add: concatenateMeshes_def meshesToConcatenate_exits
      intro!: exitsAsDiagnosed_then_do split: option.split)

lemma filterAttributes_exits: "exitsAsDiagnosed (filterAttributes env args m)"
  by (auto simp add: filterAttributes_def intro!: exitsAsDiagnosed_then_do split: option.split)

lemma singleMesh_exits: "exitsAsDiagnosed (singleMesh env args importer)"
  by (auto simp add: singleMesh_def concatenateMeshes_exits filterAttributes_exits
      intro!: exitsAsDiagnosed_then_do split: option.split)

lemma removeDuplicateVertices_exits: "exitsAsDiagnosed (removeDuplicateVertices env args i m)"
  by (auto simp add: removeDuplicateVertices_def intro!: exitsAsDiagnosed_then_do)

lemma meshConverters_exits: "exitsAsDiagnosed (meshConverters env args i jns m)"
  by (induction env args i jns m rule: meshConverters.induct)
     (auto simp add: Let_def intro!: exitsAsDiagnosed_then_do split: option.split)

lemma processMeshLoop_exits: "exitsAsDiagnosed (processMeshLoop env args importer is meshes)"
  by (induction env args importer "is" meshes rule: processMeshLoop.induct)
     (auto simp add: removeDuplicateVertices_exits meshConverters_exits
       intro!: exitsAsDiagnosed_then_do split: option.split)

lemma processMeshes_exits: "exitsAsDiagnosed (processMeshes env args importer)"
  by (simp add: processMeshes_def processMeshLoop_exits)

lemma propagateAttributeNames_exits:
  "exitsAsDiagnosed (propagateAttributeNames env stage importer as converter)"
  by (induction env stage importer as converter rule: propagateAttributeNames.induct)
     (auto intro!: exitsAsDiagnosed_then_do split: option.split MeshAttribute.split)

lemma addMeshes_exits: "exitsAsDiagnosed (addMeshes env stage importer contents ms converter)"
  by (induction env stage importer contents ms converter rule: addMeshes.induct)
     (auto simp add: Let_def propagateAttributeNames_exits
       intro!: exitsAsDiagnosed_then_do split: option.split)

lemma addLooseMeshes_exits:
  "exitsAsDiagnosed (addLooseMeshes env stage importer converter meshes contents)"
  by (auto simp add: addLooseMeshes_def addMeshes_exits intro!: exitsAsDiagnosed_then_do)

lemma beginConversion_exits: "exitsAsDiagnosed (beginConversion env args i n converter)"
  by (auto simp add: beginConversion_def intro!: exitsAsDiagnosed_then_do split: option.split)

lemma endConversion_exits:
  "exitsAsDiagnosed (endConversion env i isLast importer meshes contents converter)"
  by (auto simp add: endConversion_def intro!: exitsAsDiagnosed_then_do split: option.split)

lemma converterStage_exits: "exitsAsDiagnosed (converterStage env args i n importer meshes)"
  by (auto simp add: converterStage_def Let_def beginConversion_exits addLooseMeshes_exits
       endConversion_exits
       intro!: exitsAsDiagnosed_then_do split: option.split prod.split)

lemma converterChain_exits: "exitsAsDiagnosed (converterChain env args sts importer meshes)"
  by (induction env args sts importer meshes rule: converterChain.induct)
     (auto simp add: converterStage_exits intro!: exitsAsDiagnosed_then_do)

lemma prepare_exits: "exitsAsDiagnosed (prepare env args)"
  by (auto simp add: prepare_def genericChecks_exits openInput_exits singleMesh_exits
       processMeshes_exits intro!: exitsAsDiagnosed_then_do)

lemma pipeline_exits: "exitsAsDiagnosed (pipeline env args)"
  by (auto simp add: pipeline_def prepare_exits converterChain_exits
       intro!: exitsAsDiagnosed_then_do)

text \<open>
  C2, as stated, fails: the seven failure classes do not have seven exit codes. A bad
  option combination and a failure to add a loose mesh in the chain both end with exit
  code 1; a failure to add the importer contents in the chain and a failure to finalize
  the output file both end with exit code 5.
\<close>

theorem exit_codes_shared_counterexample:
  "main demoEnv (demoArgs\<lparr>arg_mesh := ''1'', arg_concatenate_meshes := True\<rparr>)
     = ([Error MeshAndConcatenateMeshesMutuallyExclusive], Exit 1)
   \<and> last (fst (main addFailsEnv bothArgs)) = Error (CannotAddMesh 0)
   \<and> snd (main addFailsEnv bothArgs) = Exit 1
   \<and> last (fst (main contentsFailEnv demoArgs)) = Error CannotAddImporterContents
   \<and> snd (main contentsFailEnv demoArgs) = Exit 5
   \<and> last (fst (main endFileFailsEnv demoArgs)) = Error CannotEndConversionOfFile
   \<and> snd (main endFileFailsEnv demoArgs) = Exit 5"
  by (simp add: run_defs demo_defs bothArgs_def addFailsEnv_def contentsFailEnv_def
      endFileFailsEnv_def enumerate_eq_zip numeral_2_eq_2)

text \<open>
  C2, amended. Every diagnostic that ends a run is followed by its own fixed exit code:
  3 after a failure to open or map the source, 4 after a failure to import the mesh
  selected with \<open>--mesh\<close>, 2 after a converter plugin that could not be loaded, 6 after a
  scene converter without the required capability, 5 after a failure to add the importer
  contents or to end the output file, and 1 after everything else: bad option
  combinations, an importer plugin that could not be loaded, failures to import a mesh or
  the scene in the concatenation and preprocessing loops, a mesh converter without
  \<open>ConvertMesh\<close> or failing, failures to begin a conversion, to add a loose mesh, and to
  end a conversion that is not the last.
\<close>

theorem exit_code_follows_diagnostic:
  assumes "e \<in> set (fst (main env args))" and "exitCodeAfter e = Some c"
  shows "snd (main env args) = Exit c"
proof -
  have "snd (pipeline env args) = Inl (Exit c)"
    using pipeline_exits[of env args] assms
    by (auto simp: exitsAsDiagnosed_def fst_main)
  then show ?thesis by (cases "pipeline env args") (simp add: main_def)
qed

theorem exit_code_follows_diagnostic_witness:
  "Error CannotOpenFile \<in> set (fst (main demoEnv (demoArgs\<lparr>arg_input := ''missing.obj''\<rparr>)))
   \<and> exitCodeAfter (Error CannotOpenFile) = Some 3
   \<and> snd (main demoEnv (demoArgs\<lparr>arg_input := ''missing.obj''\<rparr>)) = Exit 3"
  using exit_code_follows_diagnostic
          [of "Error CannotOpenFile" demoEnv "demoArgs\<lparr>arg_input := ''missing.obj''\<rparr>" 3]
  by (simp add: run_defs demo_defs)

subsection \<open>Capabilities of the first converter\<close>

lemma setupEvent_no_call: "setupEvent e \<Longrightarrow> \<not> isConverterCall e"
  by (cases e) simp_all

lemma preprocessingEvent_no_call: "preprocessingEvent e \<Longrightarrow> \<not> isConverterCall e"
  by (cases e) simp_all

lemma no_calls: "list_all (\<lambda>e. \<not> isConverterCall e) tr \<Longrightarrow> filter isConverterCall tr = []"
  by (induction tr) simp_all

lemma prepare_no_calls: "list_all (\<lambda>e. \<not> isConverterCall e) (fst (prepare env args))"
proof -
  have g: "list_all (\<lambda>e. \<not> isConverterCall e) (fst (genericChecks args))"
    using genericChecks_events[of args] by (simp add: list_all_iff setupEvent_no_call)
  have o: "list_all (\<lambda>e. \<not> isConverterCall e) (fst (openInput env args))"
    using openInput_events[of env args] by (simp add: list_all_iff setupEvent_no_call)
  have s: "list_all (\<lambda>e. \<not> isConverterCall e) (fst (singleMesh env args importer))" for importer
    using singleMesh_events[of env args importer] by (simp add: list_all_iff setupEvent_no_call)
  have p: "list_all (\<lambda>e. \<not> isConverterCall e) (fst (processMeshes env args importer))" for importer
    using processMeshes_events[of env args importer]
    by (simp add: list_all_iff preprocessingEvent_no_call)
  show ?thesis
    unfolding prepare_def
    by (auto intro!: list_all_then_do simp: g o s p)
qed

lemma main_of_prepare:
  assumes "prepare env args = (tr, Inr (importer, meshes))"
  shows "main env args =
           (tr @ fst (converterChain env args (stages args) importer meshes),
            case snd (converterChain env args (stages args) importer meshes) of
              Inl out \<Rightarrow> out | Inr u \<Rightarrow> Exit 0)"
  using assms
  by (cases "converterChain env args (stages args) importer meshes")
     (simp add: main_def pipeline_def split: sum.split)

lemma demo_prepare:
  "prepare demoEnv (demoArgs\<lparr>arg_converter := cs\<rparr>) =
     ([ManagerConstructed ImporterManager, ManagerConstructed ImageConverterManager,
       ManagerConstructed SceneConverterManager,
       LoadAndInstantiate ImporterManager ''AnySceneImporter''],
      Inr (FromPlugin demoImporter, []))"
  by (simp add: run_defs demo_defs)

text \<open>
  C3, as stated, fails: a first, non-last converter that declares only \<open>ConvertMesh\<close> is
  accepted for a whole scene. The conversion is begun, the importer contents are added to
  it and the run goes on to the next converter; here it ends with exit code 0.
\<close>

theorem mesh_only_first_stage_accepted_counterexample:
  "doFeatures demoEnv ''MeshOnly'' = {ConvertMesh}
   \<and> \<not> isLastConverter demoEnv meshOnlyArgs 0 ''MeshOnly''
   \<and> arg_mesh meshOnlyArgs = [] \<and> \<not> arg_concatenate_meshes meshOnlyArgs
   \<and> main demoEnv meshOnlyArgs =
       ([ManagerConstructed ImporterManager, ManagerConstructed ImageConverterManager,
         ManagerConstructed SceneConverterManager,
         LoadAndInstantiate ImporterManager ''AnySceneImporter'',
         LoadAndInstantiate SceneConverterManager ''MeshOnly'', Begin 0,
         AddSupportedImporterContents 0 (- {}), End 0,
         LoadAndInstantiate SceneConverterManager ''AnySceneConverter'',
         BeginFile 1 ''out.ply'', AddSupportedImporterContents 1 (- {}), EndFile 1],
        Exit 0)"
  by (simp add: run_defs demo_defs meshOnlyArgs_def enumerate_eq_zip)

text \<open>
  C3, amended. When the run reaches the chain and the first converter is not the last and
  declares neither \<open>ConvertMesh\<close> nor \<open>ConvertMultiple\<close>, in whichever mode, the run ends
  with the feature-mismatch error and exit code 6 right after the plugin was loaded: no
  conversion was begun and nothing was added to any converter.
\<close>

theorem unsupported_first_stage_rejected:
  assumes "prepare env args = (tr, Inr (importer, meshes))"
    and "arg_converter args = name # rest"
    and "converterManager_loadAndInstantiate env name = Some loaded"
    and "\<not> isLastConverter env args 0
             (configured env (arg_verbose args) (arg_converter_options args) 0 loaded)"
    and "doFeatures env (configured env (arg_verbose args) (arg_converter_options args) 0 loaded)
           \<inter> {ConvertMesh, ConvertMultiple} = {}"
  shows "main env args =
           (tr @ [LoadAndInstantiate SceneConverterManager name,
                  Error (DoesntSupportImporterConversion name)], Exit 6)
         \<and> filter isConverterCall (fst (main env args)) = []"
proof -
  have stage: "converterStage env args 0 name importer meshes =
          ([LoadAndInstantiate SceneConverterManager name,
            Error (DoesntSupportImporterConversion name)], Inl (Exit 6))"
    using assms(2-5)
    by (simp add: converterStage_def beginConversion_def Let_def emit_def fail_def)
  have "stages args = (0, name) # enumerate 1 (rest @ [''AnySceneConverter''])"
    using assms(2) by (simp add: stages_def)
  then have chain: "converterChain env args (stages args) importer meshes =
          ([LoadAndInstantiate SceneConverterManager name,
            Error (DoesntSupportImporterConversion name)], Inl (Exit 6))"
    using stage by simp
  have m: "main env args =
           (tr @ [LoadAndInstantiate SceneConverterManager name,
                  Error (DoesntSupportImporterConversion name)], Exit 6)"
    using main_of_prepare[OF assms(1)] chain by simp
  have "filter isConverterCall tr = []"
    using prepare_no_calls[of env args] assms(1) by (simp add: no_calls)
  then show ?thesis using m by simp
qed

theorem unsupported_first_stage_rejected_witness:
  "main demoEnv bareArgs =
     ([ManagerConstructed ImporterManager, ManagerConstructed ImageConverterManager,
       ManagerConstructed SceneConverterManager,
       LoadAndInstantiate ImporterManager ''AnySceneImporter'',
       LoadAndInstantiate SceneConverterManager ''Bare'',
       Error (DoesntSupportImporterConversion ''Bare'')], Exit 6)"
  using unsupported_first_stage_rejected[of demoEnv bareArgs _ "FromPlugin demoImporter" "[]" "''Bare''" "[]" "''Bare''"]
        demo_prepare[of "[''Bare'']"]
  by (simp add: bareArgs_def) (simp add: demoArgs_def demoEnv_def configured_def isLastConverter_def)

subsection \<open>Concatenation\<close>

lemma concatenate_None: "\<not> concatenable meshes \<Longrightarrow> concatenate merge meshes = None"
  by (simp add: concatenate_def)

text \<open>
  C4. When concatenation is requested and the meshes that go into it do not share a
  directly-summable primitive topology, the run is aborted by the assertion of the
  concatenation; no converter was called before, so no output file was begun or written.
\<close>

theorem incompatible_topology_aborts:
  assumes "snd (genericChecks args) = Inr ()"
    and "snd (openInput env args) = Inr importer"
    and "\<not> isInfoRequested args"
    and "arg_concatenate_meshes args"
    and "snd (meshesToConcatenate env importer) = Inr meshes"
    and "\<not> concatenable meshes"
  shows "snd (main env args) = Abort AssertConcatenate
         \<and> filter isConverterCall (fst (main env args)) = []"
proof -
  have c: "snd (concatenateMeshes env importer) = Inl (Abort AssertConcatenate)"
    using assms(5,6) by (simp add: concatenateMeshes_def snd_then_do concatenate_None)
  then have "snd (singleMesh env args importer) = Inl (Abort AssertConcatenate)"
    using assms(4) by (simp add: singleMesh_def snd_then_do)
  then have "snd (prepare env args) = Inl (Abort AssertConcatenate)"
    using assms(1-3) by (simp add: prepare_def snd_then_do)
  then have "snd (pipeline env args) = Inl (Abort AssertConcatenate)"
    by (simp add: pipeline_def snd_then_do)
  then have out: "snd (main env args) = Abort AssertConcatenate"
    by (cases "pipeline env args") (simp add: main_def)
  have "fst (main env args) = fst (prepare env args)"
    using \<open>snd (prepare env args) = Inl (Abort AssertConcatenate)\<close>
    by (simp add: fst_main pipeline_def fst_then_do)
  then have "filter isConverterCall (fst (main env args)) = []"
    using prepare_no_calls[of env args] by (simp add: no_calls)
  then show ?thesis using out by simp
qed

theorem incompatible_topology_aborts_witness:
  "concatenable [M1, M2\<lparr>primitive := Lines\<rparr>] = False
   \<and> main linesEnv concatenateArgs =
     ([ManagerConstructed ImporterManager, ManagerConstructed ImageConverterManager,
       ManagerConstructed SceneConverterManager,
       LoadAndInstantiate ImporterManager ''AnySceneImporter''], Abort AssertConcatenate)"
proof -
  have g: "snd (genericChecks concatenateArgs) = Inr ()"
    by (simp add: run_defs concatenateArgs_def demoArgs_def)
  have o: "openInput linesEnv concatenateArgs =
     ([ManagerConstructed ImporterManager, ManagerConstructed ImageConverterManager,
       ManagerConstructed SceneConverterManager,
       LoadAndInstantiate ImporterManager ''AnySceneImporter''], Inr linesImporter)"
    by (simp add: run_defs concatenateArgs_def demoArgs_def linesEnv_def demoEnv_def)
  have i: "\<not> isInfoRequested concatenateArgs" "arg_concatenate_meshes concatenateArgs"
    by (simp_all add: run_defs concatenateArgs_def demoArgs_def)
  have m: "meshesToConcatenate linesEnv linesImporter = ([], Inr [M1, M2\<lparr>primitive := Lines\<rparr>])"
    by (simp add: run_defs linesImporter_def demoImporter_def numeral_2_eq_2)
  have n: "\<not> concatenable [M1, M2\<lparr>primitive := Lines\<rparr>]"
    by (simp add: concatenable_def M1_def M2_def)
  have t: "fst (main linesEnv concatenateArgs) =
     [ManagerConstructed ImporterManager, ManagerConstructed ImageConverterManager,
       ManagerConstructed SceneConverterManager,
       LoadAndInstantiate ImporterManager ''AnySceneImporter'']"
    by (simp add: run_defs concatenateArgs_def demoArgs_def linesEnv_def demoEnv_def
        linesImporter_def demoImporter_def M1_def M2_def numeral_2_eq_2)
  show ?thesis
    using incompatible_topology_aborts[of concatenateArgs linesEnv linesImporter "[M1, M2\<lparr>primitive := Lines\<rparr>]"]
      g o i m n t
    by (simp add: prod_eq_iff)
qed

lemma importMeshes_all:
  "\<forall>i \<in> set is. doMesh importer i 0 \<noteq> None \<Longrightarrow>
   importMeshes importer is meshes
     = ([], Inr (meshes @ map (\<lambda>i. the (doMesh importer i 0)) is))"
  by (induction importer "is" meshes rule: importMeshes.induct) (auto simp: ret_def)

text \<open>
  C8. With \<open>--concatenate-meshes\<close> and no default scene, the meshes handed to the
  concatenation are exactly the meshes of the source, in import order and untransformed.
  When they can be concatenated, the result is carried by an importer that holds this one
  mesh: its vertex count is the sum of the vertex counts and its attributes are those of
  the first mesh. For a first mesh of four and a second of three vertices that is one mesh
  of seven vertices with the attributes of the first.
\<close>

theorem concatenation_without_scene:
  assumes "arg_concatenate_meshes args" and "arg_mesh args = []"
    and "arg_only_mesh_attributes args = []"
    and "doDefaultScene importer = -1"
    and "doMeshCount importer \<noteq> 0"
    and "\<forall>i < doMeshCount importer. doMesh importer i 0 \<noteq> None"
    and "ms = map (\<lambda>i. the (doMesh importer i 0)) [0..<doMeshCount importer]"
    and "concatenable ms"
  shows "meshesToConcatenate env importer = ([], Inr ms)
         \<and> (\<exists>c. concatenate (concatenateBuffers env) ms = Some c
                \<and> singleMesh env args importer
                    = ([], Inr (SingleMesh (SingleMeshImporter_new c [] importer)))
                \<and> meshCount (SingleMesh (SingleMeshImporter_new c [] importer)) = 1
                \<and> mesh (SingleMesh (SingleMeshImporter_new c [] importer)) 0 0 = Some c
                \<and> vertexCount c = sum_list (map vertexCount ms)
                \<and> attributes c = attributes (hd ms))"
proof -
  have imp: "importMeshes importer [0..<doMeshCount importer] [] = ([], Inr ms)"
    using importMeshes_all[of "[0..<doMeshCount importer]" importer "[]"] assms(6,7) by simp
  have m: "meshesToConcatenate env importer = ([], Inr ms)"
    using assms(4,5) imp by (simp add: meshesToConcatenate_def ret_def)
  obtain c where c: "concatenate (concatenateBuffers env) ms = Some c"
    using assms(8) by (simp add: concatenate_def)
  have cm: "concatenateMeshes env importer = ([], Inr c)"
    using m c by (simp add: concatenateMeshes_def ret_def)
  have s: "singleMesh env args importer
            = ([], Inr (SingleMesh (SingleMeshImporter_new c [] importer)))"
    using assms(1-3) cm by (simp add: singleMesh_def filterAttributes_def ret_def)
  have v: "vertexCount c = sum_list (map vertexCount ms)" "attributes c = attributes (hd ms)"
    using c assms(8) by (auto simp: concatenate_def)
  show ?thesis
    using m c s v
    by (simp add: SingleMeshImporter_doMeshCount_def SingleMeshImporter_doMesh_def
        SingleMeshImporter_new_def)
qed

theorem concatenation_without_scene_witness:
  "meshesToConcatenate demoEnv demoImporter = ([], Inr [M1, M2])
   \<and> vertexCount M1 = 4 \<and> vertexCount M2 = 3
   \<and> (\<exists>c. singleMesh demoEnv concatenateArgs demoImporter
              = ([], Inr (SingleMesh (SingleMeshImporter_new c [] demoImporter)))
          \<and> vertexCount c = 7 \<and> attributes c = attributes M1)"
proof -
  have ms: "map (\<lambda>i. the (doMesh demoImporter i 0)) [0..<doMeshCount demoImporter] = [M1, M2]"
    by (simp add: demoImporter_def numeral_2_eq_2)
  have pre: "arg_concatenate_meshes concatenateArgs" "arg_mesh concatenateArgs = []"
    "arg_only_mesh_attributes concatenateArgs = []" "doDefaultScene demoImporter = -1"
    "doMeshCount demoImporter \<noteq> 0" "\<forall>i < doMeshCount demoImporter. doMesh demoImporter i 0 \<noteq> None"
    "concatenable [M1, M2]"
    by (auto simp add: concatenateArgs_def demoArgs_def demoImporter_def concatenable_def
        M1_def M2_def less_Suc_eq numeral_2_eq_2)
  have v: "vertexCount M1 = 4" "vertexCount M2 = 3"
    by (simp_all add: M1_def M2_def)
  show ?thesis
    using concatenation_without_scene[of concatenateArgs demoImporter "[M1, M2]" demoEnv] ms pre v
    by auto
qed

subsection \<open>Loose meshes and the contents mask\<close>

lemma endConversion_end:
  "snd (endConversion env i isLast importer meshes contents converter) = Inr st \<Longrightarrow>
   st_meshes st = meshes \<and> st_contents st = contents"
  by (auto simp add: endConversion_def snd_then_do split: if_splits option.splits)

lemma addLooseMeshes_end:
  "snd (addLooseMeshes env i importer converter meshes contents) = Inr (converter', meshes', contents')
   \<Longrightarrow> meshes' = [] \<and> contents' = (if meshes = [] then contents else contents \<inter> - {Meshes})"
  by (auto simp add: addLooseMeshes_def snd_then_do split: if_splits sum.splits)

lemma converterStage_end:
  assumes "snd (converterStage env args i name importer meshes) = Inr st"
  shows "st_meshes st = [] \<and> st_contents st = (if meshes = [] then - {} else - {Meshes})"
proof -
  from assms obtain loaded where l: "converterManager_loadAndInstantiate env name = Some loaded"
    by (cases "converterManager_loadAndInstantiate env name")
       (auto simp add: converterStage_def snd_then_do)
  let ?c = "configured env (arg_verbose args) (arg_converter_options args) i loaded"
  from assms l obtain c1 where b: "snd (beginConversion env args i name ?c) = Inr c1"
    by (cases "snd (beginConversion env args i name ?c)")
       (auto simp add: converterStage_def snd_then_do Let_def split: if_splits)
  from assms l b obtain c2 ms2 cs2 where
    a: "snd (addLooseMeshes env i importer c1 meshes (- {})) = Inr (c2, ms2, cs2)"
    by (cases "snd (addLooseMeshes env i importer c1 meshes (- {}))")
       (auto simp add: converterStage_def snd_then_do Let_def split: if_splits)
  from assms l b a obtain c3 where
    e: "snd (endConversion env i (isLastConverter env args i ?c) importer ms2 cs2 c3) = Inr st"
    by (auto simp add: converterStage_def snd_then_do Let_def split: if_splits option.splits)
  show ?thesis
    using addLooseMeshes_end[OF a] endConversion_end[OF e] by auto
qed

text \<open>
  C10. An iteration of the converter chain that starts with a non-empty loose mesh array
  and runs to its end leaves the array empty and the \<open>Meshes\<close> category cleared from its
  contents mask, whether the converter took the meshes or they were skipped with a
  warning.
\<close>

theorem loose_meshes_dropped:
  assumes "meshes \<noteq> []"
    and "snd (converterStage env args i name importer meshes) = Inr st"
  shows "st_meshes st = [] \<and> Meshes \<notin> st_contents st"
  using converterStage_end[OF assms(2)] assms(1) by simp

lemma materials_stage:
  "converterStage demoEnv materialsArgs 0 ''MaterialsOnly'' (FromPlugin demoImporter) [M1] =
     ([LoadAndInstantiate SceneConverterManager ''MaterialsOnly'', Begin 0,
       Warning (IgnoringMeshesNotSupported 1),
       AddSupportedImporterContents 0 (- {Meshes}), End 0],
      Inr \<lparr>st_last = False, st_importer = FromPlugin emptyImporter, st_meshes = [],
           st_contents = - {Meshes}\<rparr>)"
  by (simp add: run_defs demoEnv_def demoArgs_def materialsArgs_def)

theorem loose_meshes_dropped_witness:
  "Meshes \<notin> sceneContentsFor demoEnv ''MaterialsOnly''
   \<and> converterStage demoEnv materialsArgs 0 ''MaterialsOnly'' (FromPlugin demoImporter) [M1] =
     ([LoadAndInstantiate SceneConverterManager ''MaterialsOnly'', Begin 0,
       Warning (IgnoringMeshesNotSupported 1),
       AddSupportedImporterContents 0 (- {Meshes}), End 0],
      Inr \<lparr>st_last = False, st_importer = FromPlugin emptyImporter, st_meshes = [],
           st_contents = - {Meshes}\<rparr>)"
  using loose_meshes_dropped[of "[M1]" demoEnv materialsArgs 0 "''MaterialsOnly''" "FromPlugin demoImporter"
          "\<lparr>st_last = False, st_importer = FromPlugin emptyImporter, st_meshes = [],
           st_contents = - {Meshes}\<rparr>"]
        materials_stage
  by (simp add: demoEnv_def)

lemma propagateAttributeNames_no_contents:
  "AddSupportedImporterContents k c \<notin> set (fst (propagateAttributeNames env stage importer as converter))"
  by (induction env stage importer as converter rule: propagateAttributeNames.induct)
     (auto simp add: fst_then_do split: option.split MeshAttribute.split sum.split)

lemma addMeshes_no_contents:
  "AddSupportedImporterContents k c \<notin> set (fst (addMeshes env stage importer contents ms converter))"
  by (induction env stage importer contents ms converter rule: addMeshes.induct)
     (auto simp add: fst_then_do snd_then_do Let_def propagateAttributeNames_no_contents
       split: option.split sum.split)

lemma addLooseMeshes_no_contents:
  "AddSupportedImporterContents k c \<notin> set (fst (addLooseMeshes env stage importer converter meshes contents))"
  by (auto simp add: addLooseMeshes_def fst_then_do addMeshes_no_contents split: sum.split)

lemma beginConversion_no_contents:
  "AddSupportedImporterContents k c \<notin> set (fst (beginConversion env args i n converter))"
  by (auto simp add: beginConversion_def fst_then_do split: option.split)

lemma endConversion_no_contents:
  "AddSupportedImporterContents k c \<notin> set (fst (endConversion env i isLast importer meshes contents converter))"
  by (auto simp add: endConversion_def fst_then_do split: option.split)

lemma converterStage_contents:
  assumes "AddSupportedImporterContents k c \<in> set (fst (converterStage env args i name importer meshes))"
  shows "k = i \<and> c = (if meshes = [] then - {} else - {Meshes})"
proof (cases "converterManager_loadAndInstantiate env name")
  case None
  then show ?thesis using assms by (simp add: converterStage_def fst_then_do)
next
  case (Some loaded)
  let ?c = "configured env (arg_verbose args) (arg_converter_options args) i loaded"
  let ?b = "beginConversion env args i name ?c"
  show ?thesis
  proof (cases "snd ?b")
    case (Inl out)
    then show ?thesis
      using assms Some beginConversion_no_contents[of k c env args i name ?c]
      by (auto simp add: converterStage_def fst_then_do Let_def split: if_splits)
  next
    case (Inr c1)
    let ?a = "addLooseMeshes env i importer c1 meshes (- {})"
    show ?thesis
    proof (cases "snd ?a")
      case (Inl out)
      then show ?thesis
        using assms Some Inr beginConversion_no_contents[of k c env args i name ?c]
          addLooseMeshes_no_contents[of k c env i importer c1 meshes "- {}"]
        by (auto simp add: converterStage_def fst_then_do Let_def split: if_splits)
    next
      case (Inr r)
      obtain c2 ms2 cs2 where r: "r = (c2, ms2, cs2)" by (cases r) auto
      have cs2: "cs2 = (if meshes = [] then - {} else - {Meshes})"
        using addLooseMeshes_end[of env i importer c1 meshes "- {}" c2 ms2 cs2] Inr r by auto
      show ?thesis
        using assms Some \<open>snd ?b = Inr c1\<close> Inr r cs2
          beginConversion_no_contents[of k c env args i name ?c]
          addLooseMeshes_no_contents[of k c env i importer c1 meshes "- {}"]
          endConversion_no_contents[of k c env i]
        by (auto simp add: converterStage_def fst_then_do snd_then_do Let_def
            split: if_splits option.splits)
    qed
  qed
qed

lemma converterChain_contents:
  assumes "AddSupportedImporterContents k c
             \<in> set (fst (converterChain env args (enumerate n names) importer meshes))"
  shows "n \<le> k \<and> (c = - {} \<or> c = - {Meshes}) \<and> (n < k \<or> meshes = [] \<longrightarrow> c = - {})"
  using assms
proof (induction names arbitrary: n importer meshes)
  case Nil
  then show ?case by simp
next
  case (Cons name names)
  let ?s = "converterStage env args n name importer meshes"
  show ?case
  proof (cases "AddSupportedImporterContents k c \<in> set (fst ?s)")
    case True
    then show ?thesis using converterStage_contents[OF True] by auto
  next
    case False
    show ?thesis
    proof (cases "snd ?s")
      case (Inl out)
      then show ?thesis using Cons.prems False by (simp add: fst_then_do)
    next
      case (Inr st)
      show ?thesis
      proof (cases "st_last st")
        case True
        then show ?thesis using Cons.prems False Inr by (simp add: fst_then_do)
      next
        case notlast: False
        have rest: "AddSupportedImporterContents k c
            \<in> set (fst (converterChain env args (enumerate (Suc n) names)
                         (st_importer st) (st_meshes st)))"
          using Cons.prems False Inr notlast by (simp add: fst_then_do)
        have "st_meshes st = []" using converterStage_end[OF Inr] by simp
        then show ?thesis using Cons.IH[OF rest] by auto
      qed
    qed
  qed
qed

lemma main_contents:
  assumes "AddSupportedImporterContents k c \<in> set (fst (main env args))"
  shows "(c = - {} \<or> c = - {Meshes}) \<and> (0 < k \<longrightarrow> c = - {})"
proof -
  have "\<not> isConverterCall (AddSupportedImporterContents k c) \<or> AddSupportedImporterContents k c \<notin> set (fst (prepare env args))"
    using prepare_no_calls[of env args] by (auto simp: list_all_iff)
  then have np: "AddSupportedImporterContents k c \<notin> set (fst (prepare env args))" by simp
  then obtain importer meshes where
    "AddSupportedImporterContents k c
       \<in> set (fst (converterChain env args (enumerate 0 (arg_converter args @ [''AnySceneConverter''])) importer meshes))"
    using assms
    by (auto simp add: fst_main pipeline_def fst_then_do stages_def split: sum.splits prod.splits)
  from converterChain_contents[OF this] show ?thesis by auto
qed

lemma looseChain_trace:
  "main demoEnv looseChainArgs =
     ([ManagerConstructed ImporterManager, ManagerConstructed ImageConverterManager,
       ManagerConstructed SceneConverterManager,
       LoadAndInstantiate ImporterManager ''AnySceneImporter'',
       RemoveDuplicates 0, RemoveDuplicates 1,
       LoadAndInstantiate SceneConverterManager ''MeshOnly'', Begin 0,
       SetMeshAttributeName 0 5 ''weight'', Add 0 0 ''first'', Add 0 1 ''second'',
       AddSupportedImporterContents 0 (- {Meshes}), End 0,
       LoadAndInstantiate SceneConverterManager ''AnySceneConverter'',
       BeginFile 1 ''out.ply'', AddSupportedImporterContents 1 (- {}), EndFile 1],
      Exit 0)"
  by (simp add: run_defs demo_defs looseChainArgs_def enumerate_eq_zip numeral_2_eq_2)

text \<open>
  C9. The contents mask of an iteration starts as the full mask and is changed in one
  place only, which clears \<open>Meshes\<close> and sets nothing. The mask an iteration ends with
  depends on its own loose meshes alone, not on an earlier iteration. So in every run the
  mask handed to a converter is the full mask or the full mask without \<open>Meshes\<close>, and from
  the second converter on it is the full mask again.
\<close>

theorem contents_mask_only_cleared:
  "(snd (addLooseMeshes env i importer converter meshes contents)
        = Inr (converter', meshes', contents')
      \<longrightarrow> contents' \<subseteq> contents \<and> contents - contents' \<subseteq> {Meshes})
   \<and> (snd (converterStage env args i name importer meshes) = Inr st
      \<longrightarrow> st_contents st = (if meshes = [] then - {} else - {Meshes}))
   \<and> (AddSupportedImporterContents k c \<in> set (fst (main env args))
      \<longrightarrow> (c = - {} \<or> c = - {Meshes}) \<and> (0 < k \<longrightarrow> c = - {}))"
proof (intro conjI impI)
  assume a: "snd (addLooseMeshes env i importer converter meshes contents)
        = Inr (converter', meshes', contents')"
  have c: "contents' = (if meshes = [] then contents else contents \<inter> - {Meshes})"
    using addLooseMeshes_end[OF a] by simp
  show "contents' \<subseteq> contents" using c by (auto split: if_splits)
  show "contents - contents' \<subseteq> {Meshes}" using c by (auto split: if_splits)
next
  assume "snd (converterStage env args i name importer meshes) = Inr st"
  then show "st_contents st = (if meshes = [] then - {} else - {Meshes})"
    using converterStage_end by blast
next
  assume m: "AddSupportedImporterContents k c \<in> set (fst (main env args))"
  show "c = - {} \<or> c = - {Meshes}" using main_contents[OF m] by simp
  show "c = - {}" if "0 < k" using main_contents[OF m] that by simp
qed

theorem contents_mask_only_cleared_witness:
  "AddSupportedImporterContents 0 (- {Meshes}) \<in> set (fst (main demoEnv looseChainArgs))
   \<and> AddSupportedImporterContents 1 (- {}) \<in> set (fst (main demoEnv looseChainArgs))
   \<and> snd (addLooseMeshes demoEnv 0 (FromPlugin demoImporter) ''MeshOnly'' [M2] (- {}))
       = Inr (''MeshOnly'', [], - {Meshes})"
  using contents_mask_only_cleared[of demoEnv 0 "FromPlugin demoImporter" "''MeshOnly''" "[M2]" "- {}" "''MeshOnly''" "[]"
          "- {Meshes}" looseChainArgs "''MeshOnly''" _ 1 "- {}"]
  by (simp add: looseChain_trace)
     (simp add: run_defs demo_defs enumerate_eq_zip)

end
